theory Spec2Isabelle
  imports Complex_Main "HOL-Library.Sublist"
begin

text \<open>
  SpecTrail: the chat-completions client, the settings defaults, the path and command
  gates of the repo tools, and the plan workflow with its tool-calling loop, embedded
  from the Rust sources of the repository's sprint documents. Library functions (JSON
  parsing and printing, float parsing, path canonicalisation, process creation) and the
  collaborators the sources only call are parameters.
\<close>

section \<open>JSON values\<close>

text \<open>
  \<^verbatim>\<open>serde_json::Value\<close>, as far as the tools and the workflow look into it. Numbers are
  the integers the code reads with \<^verbatim>\<open>as_u64\<close>; an object is its list of members.
  Parsing and printing (\<^verbatim>\<open>serde_json::from_str\<close>, \<^verbatim>\<open>Value::to_string\<close>) belong to the
  library and are parameters of the functions that call them.
\<close>

datatype json =
    JNull
  | JBool bool
  | JNumber int
  | JString string
  | JArray "json list"
  | JObject "(string \<times> json) list"

text \<open>\<^verbatim>\<open>Value::get(key)\<close>: a member of an object, \<^verbatim>\<open>None\<close> on any other value.\<close>

fun json_get :: "json \<Rightarrow> string \<Rightarrow> json option" where
  "json_get (JObject kvs) k = map_of kvs k"
| "json_get _ k = None"

fun as_str :: "json \<Rightarrow> string option" where
  "as_str (JString s) = Some s"
| "as_str _ = None"

fun as_u64 :: "json \<Rightarrow> nat option" where
  "as_u64 (JNumber n) = (if 0 \<le> n \<and> n < 2 ^ 64 then Some (nat n) else None)"
| "as_u64 _ = None"

section \<open>LLM client (llm/types.rs, llm/client.rs)\<close>

subsection \<open>Wire types\<close>

record ToolFunction =
  fn_name :: string
  fn_arguments :: string

record ToolCall =
  tc_id :: string
  tc_function :: ToolFunction

text \<open>The first client's message (role and text only).\<close>

record TextMessage =
  role :: string
  content :: string

text \<open>The message of the tool-calling client.\<close>

record ChatMessage =
  role :: string
  content :: "string option"
  tool_calls :: "ToolCall list option"
  tool_call_id :: "string option"

record 'm Choice =
  index :: int
  message :: 'm
  finish_reason :: string

record 'm OpenAIChatResponse =
  resp_id :: string
  resp_model :: string
  choices :: "'m Choice list"

record LlmResponse =
  resp_content :: "string option"
  resp_tool_calls :: "ToolCall list option"

datatype LlmError =
    MissingApiKey
  | Http string
  | Api nat string
  | InvalidResponse string
  | Timeout
  | RateLimited

subsection \<open>One attempt\<close>

text \<open>
  What one \<^verbatim>\<open>send().await\<close> brings back: a transport failure (a \<^verbatim>\<open>reqwest::Error\<close>,
  kept as its text), or a status code with the body. For a success status the body is
  decoded by \<^verbatim>\<open>response.json()\<close>; the decoder is the parameter \<open>decode\<close>, and its failure
  is again a \<^verbatim>\<open>reqwest::Error\<close>.
\<close>

datatype http_reply =
    SendFailed string
  | Reply nat string

definition is_success :: "nat \<Rightarrow> bool" where
  "is_success status \<longleftrightarrow> 200 \<le> status \<and> status < 300"

definition operation ::
  "(string \<Rightarrow> string + 'r) \<Rightarrow> http_reply \<Rightarrow> LlmError + 'r" where
  "operation decode reply =
     (case reply of
        SendFailed e \<Rightarrow> Inl (Http e)
      | Reply status body \<Rightarrow>
          if is_success status then
            (case decode body of
               Inl e \<Rightarrow> Inl (Http e)
             | Inr chat_response \<Rightarrow> Inr chat_response)
          else
            (let error_text = body in
             if status = 429 then Inl RateLimited
             else if status = 401 then Inl (Api 401 ''Invalid API key'')
             else if status \<ge> 500 then Inl (Api status error_text)
             else Inl (Api status error_text)))"

subsection \<open>The retry driver\<close>

text \<open>
  \<^verbatim>\<open>backoff::future::retry(backoff, operation)\<close>. The crate's driver takes an operation
  whose error says of itself whether it is permanent or transient. After a permanent
  error the driver returns it. After a transient error the driver asks the policy for
  the next delay: with a delay it sleeps and calls the operation again, without one it
  returns the error. The delays the policy will grant (they depend on the clock and on
  the policy's random factor) are the list \<open>delays\<close>; the list is finite because the
  policy has a bound on the elapsed time.

  \<open>attempt k\<close> is the outcome of the \<open>k\<close>-th call of the operation. The driver returns
  the result together with the number of calls made so far.
\<close>

datatype 'e backoff_error = Permanent 'e | Transient 'e

fun retry ::
  "nat list \<Rightarrow> (nat \<Rightarrow> 'e backoff_error + 'a) \<Rightarrow> nat \<Rightarrow> ('e + 'a) \<times> nat" where
  "retry [] attempt k =
     (case attempt k of
        Inr v \<Rightarrow> (Inr v, Suc k)
      | Inl (Permanent e) \<Rightarrow> (Inl e, Suc k)
      | Inl (Transient e) \<Rightarrow> (Inl e, Suc k))"
| "retry (d # delays) attempt k =
     (case attempt k of
        Inr v \<Rightarrow> (Inr v, Suc k)
      | Inl (Permanent e) \<Rightarrow> (Inl e, Suc k)
      | Inl (Transient e) \<Rightarrow> retry delays attempt (Suc k))"

record ExponentialBackoff =
  initial_interval :: nat
  max_interval :: nat
  max_elapsed_time :: "nat option"

text \<open>The policy the client builds, in milliseconds.\<close>

definition backoff :: ExponentialBackoff where
  "backoff = \<lparr>initial_interval = 500, max_interval = 4 * 1000,
              max_elapsed_time = Some (30 * 1000)\<rparr>"

subsection \<open>The client\<close>

text \<open>
  The \<^verbatim>\<open>f64\<close> temperature is kept as the rational its decimal text denotes; parsing the
  text of a float (\<^verbatim>\<open>str::parse::<f64>\<close>) is a parameter where it is needed.
\<close>

record LlmConfig =
  provider_name :: string
  base_url :: string
  model :: string
  temperature :: rat
  max_tokens :: int
  extra_headers :: json

record LlmClient =
  config :: LlmConfig
  api_key :: string

definition map_err :: "('e \<Rightarrow> 'f) \<Rightarrow> 'e + 'a \<Rightarrow> 'f + 'a" where
  "map_err f r = (case r of Inl e \<Rightarrow> Inl (f e) | Inr v \<Rightarrow> Inr v)"

text \<open>
  \<^verbatim>\<open>LlmClient::chat\<close>. \<open>net k\<close> is what the network answers to the \<open>k\<close>-th request of
  this call (the request itself is the same on every attempt). The second component
  of the result is the number of requests sent.

  The source's operation returns its \<^verbatim>\<open>LlmError\<close> bare and hands it to the driver as it
  is: it writes neither \<^verbatim>\<open>backoff::Error::Permanent\<close> nor \<^verbatim>\<open>backoff::Error::Transient\<close>.
  How a bare error reaches the driver is therefore not in the source, and is the
  parameter \<open>to_backoff\<close> of the client's functions.
\<close>

definition chat ::
  "LlmClient \<Rightarrow> (LlmError \<Rightarrow> LlmError backoff_error) \<Rightarrow>
   (string \<Rightarrow> string + TextMessage OpenAIChatResponse) \<Rightarrow> nat list \<Rightarrow>
   (nat \<Rightarrow> http_reply) \<Rightarrow> TextMessage list \<Rightarrow> (LlmError + string) \<times> nat" where
  "chat self to_backoff decode delays net messages =
     (if api_key self = [] then (Inl MissingApiKey, 0)
      else
        (case retry delays (\<lambda>k. map_err to_backoff (operation decode (net k))) 0 of
           (Inl e, n) \<Rightarrow> (Inl e, n)
         | (Inr result, n) \<Rightarrow>
             (case choices result of
                [] \<Rightarrow> (Inl (InvalidResponse ''No choices in response''), n)
              | c # _ \<Rightarrow> (Inr (TextMessage.content (message c)), n))))"

text \<open>
  \<^verbatim>\<open>LlmClient::chat_with_tools\<close>: the same request building and retry, then the first
  choice's content and tool calls.
\<close>

definition chat_with_tools ::
  "LlmClient \<Rightarrow> (LlmError \<Rightarrow> LlmError backoff_error) \<Rightarrow>
   (string \<Rightarrow> string + ChatMessage OpenAIChatResponse) \<Rightarrow> nat list \<Rightarrow>
   (nat \<Rightarrow> http_reply) \<Rightarrow> ChatMessage list \<Rightarrow> json list \<Rightarrow> (LlmError + LlmResponse) \<times> nat" where
  "chat_with_tools self to_backoff decode delays net messages tools =
     (case retry delays (\<lambda>k. map_err to_backoff (operation decode (net k))) 0 of
        (Inl e, n) \<Rightarrow> (Inl e, n)
      | (Inr response, n) \<Rightarrow>
          (case choices response of
             [] \<Rightarrow> (Inl (InvalidResponse ''No choices in response''), n)
           | choice # _ \<Rightarrow>
               (Inr \<lparr>resp_content = ChatMessage.content (message choice),
                     resp_tool_calls =
                       map_option
                         (map (\<lambda>tc. \<lparr>tc_id = tc_id tc,
                                     tc_function = \<lparr>fn_name = fn_name (tc_function tc),
                                                    fn_arguments = fn_arguments (tc_function tc)\<rparr>\<rparr>))
                         (tool_calls (message choice))\<rparr>, n)))"

section \<open>Settings (migrations/002_settings.sql, llm/types.rs, workflows/plan.rs)\<close>

type_synonym settings = "string \<rightharpoonup> string"

text \<open>The rows the migration inserts (key, value); \<^verbatim>\<open>updated_at\<close> is left out.\<close>

definition settings_002 :: "(string \<times> string) list" where
  "settings_002 =
     [(''provider_name'', ''openai''),
      (''base_url'', ''https://openrouter.ai/api/v1''),
      (''model'', ''z-ai/glm-4.7-flash''),
      (''temperature'', ''0.2''),
      (''max_tokens'', ''2000''),
      (''extra_headers_json'', ''{}''),
      (''dev_mode'', ''0'')]"

text \<open>\<^verbatim>\<open>INSERT OR IGNORE\<close>: a row whose key is already in the table is skipped.\<close>

fun insert_or_ignore :: "settings \<Rightarrow> (string \<times> string) list \<Rightarrow> settings" where
  "insert_or_ignore tbl [] = tbl"
| "insert_or_ignore tbl ((k, v) # rows) =
     insert_or_ignore (case tbl k of None \<Rightarrow> tbl(k \<mapsto> v) | Some _ \<Rightarrow> tbl) rows"

definition migrate_002 :: "settings \<Rightarrow> settings" where
  "migrate_002 tbl = insert_or_ignore tbl settings_002"

text \<open>\<^verbatim>\<open>str::parse::<i64>\<close>: an optional sign, then one or more decimal digits, in range.\<close>

definition digit_of :: "char \<Rightarrow> nat option" where
  "digit_of c =
     (let n = (of_char c :: nat) in if 48 \<le> n \<and> n \<le> 57 then Some (n - 48) else None)"

fun parse_digits :: "string \<Rightarrow> nat \<Rightarrow> nat option" where
  "parse_digits [] acc = Some acc"
| "parse_digits (c # cs) acc =
     (case digit_of c of None \<Rightarrow> None | Some d \<Rightarrow> parse_digits cs (10 * acc + d))"

definition parse_i64 :: "string \<Rightarrow> int option" where
  "parse_i64 s =
     (case s of
        [] \<Rightarrow> None
      | c # cs \<Rightarrow>
          if c = CHR ''-'' then
            (if cs = [] then None
             else (case parse_digits cs 0 of
                     None \<Rightarrow> None
                   | Some n \<Rightarrow> if int n \<le> 2 ^ 63 then Some (- int n) else None))
          else
            (let ds = (if c = CHR ''+'' then cs else s) in
             if ds = [] then None
             else (case parse_digits ds 0 of
                     None \<Rightarrow> None
                   | Some n \<Rightarrow> if int n < 2 ^ 63 then Some (int n) else None)))"

definition unwrap_or_default :: "string option \<Rightarrow> string" where
  "unwrap_or_default x = (case x of None \<Rightarrow> [] | Some s \<Rightarrow> s)"

definition ok :: "'e + 'a \<Rightarrow> 'a option" where
  "ok r = (case r of Inl _ \<Rightarrow> None | Inr v \<Rightarrow> Some v)"

text \<open>
  The libraries a caller brings along: the float parser, the JSON parser and the JSON
  printer.
\<close>

record stdlib =
  parse_f64 :: "string \<Rightarrow> rat option"
  from_str :: "string \<Rightarrow> string + json"
  to_string :: "json \<Rightarrow> string"

text \<open>\<^verbatim>\<open>LlmConfig::from_settings\<close> (llm/types.rs).\<close>

definition from_settings :: "stdlib \<Rightarrow> settings \<Rightarrow> LlmConfig" where
  "from_settings lib settings =
     \<lparr>provider_name = unwrap_or_default (settings ''provider_name''),
      base_url = unwrap_or_default (settings ''base_url''),
      model = unwrap_or_default (settings ''model''),
      temperature =
        (case Option.bind (settings ''temperature'') (parse_f64 lib) of
           None \<Rightarrow> 7 / 10 | Some t \<Rightarrow> t),
      max_tokens =
        (case Option.bind (settings ''max_tokens'') parse_i64 of
           None \<Rightarrow> 4096 | Some n \<Rightarrow> n),
      extra_headers =
        (case Option.bind (settings ''extra_headers_json'') (\<lambda>s. ok (from_str lib s)) of
           None \<Rightarrow> JObject [] | Some v \<Rightarrow> v)\<rparr>"

text \<open>\<^verbatim>\<open>build_llm_config\<close> (workflows/plan.rs).\<close>

definition build_llm_config :: "stdlib \<Rightarrow> settings \<Rightarrow> LlmConfig" where
  "build_llm_config lib settings =
     \<lparr>provider_name = unwrap_or_default (settings ''provider_name''),
      base_url = unwrap_or_default (settings ''base_url''),
      model = unwrap_or_default (settings ''model''),
      temperature =
        (case Option.bind (settings ''temperature'') (parse_f64 lib) of
           None \<Rightarrow> 2 / 10 | Some t \<Rightarrow> t),
      max_tokens =
        (case Option.bind (settings ''max_tokens'') parse_i64 of
           None \<Rightarrow> 4000 | Some n \<Rightarrow> n),
      extra_headers =
        (case Option.bind (settings ''extra_headers_json'') (\<lambda>s. ok (from_str lib s)) of
           None \<Rightarrow> JObject [] | Some v \<Rightarrow> v)\<rparr>"

section \<open>Path containment (repo_tools, safety)\<close>

datatype ToolError =
    UnknownTool string
  | InvalidArgs string
  | Execution string
  | PathTraversal
  | DisallowedCommand

text \<open>
  Paths are the strings Rust's \<^verbatim>\<open>Path\<close> wraps, on a Unix host. \<^verbatim>\<open>Path::components\<close>
  gives the root if the path starts with a slash, drops empty segments and \<^verbatim>\<open>.\<close>
  segments (a leading \<^verbatim>\<open>.\<close> of a relative path is kept as \<^verbatim>\<open>CurDir\<close>), and maps
  \<^verbatim>\<open>..\<close> to \<^verbatim>\<open>ParentDir\<close>.
\<close>

datatype Component = RootDir | CurDir | ParentDir | Normal string

fun split_slash :: "string \<Rightarrow> string \<Rightarrow> string list" where
  "split_slash [] seg = [rev seg]"
| "split_slash (c # cs) seg =
     (if c = CHR ''/'' then rev seg # split_slash cs [] else split_slash cs (c # seg))"

definition component_of :: "string \<Rightarrow> Component option" where
  "component_of seg =
     (if seg = [] \<or> seg = ''.'' then None
      else if seg = ''..'' then Some ParentDir
      else Some (Normal seg))"

definition components :: "string \<Rightarrow> Component list" where
  "components p =
     (case p of
        [] \<Rightarrow> []
      | c # cs \<Rightarrow>
          if c = CHR ''/'' then RootDir # List.map_filter component_of (split_slash cs [])
          else (case split_slash p [] of
                  [] \<Rightarrow> []
                | seg # segs \<Rightarrow>
                    (if seg = ''.'' then [CurDir] else List.map_filter component_of [seg])
                    @ List.map_filter component_of segs))"

fun as_os_str :: "Component \<Rightarrow> string" where
  "as_os_str RootDir = ''/''"
| "as_os_str CurDir = ''.''"
| "as_os_str ParentDir = ''..''"
| "as_os_str (Normal s) = s"

definition is_absolute :: "string \<Rightarrow> bool" where
  "is_absolute p \<longleftrightarrow> p \<noteq> [] \<and> hd p = CHR ''/''"

text \<open>\<^verbatim>\<open>PathBuf::push\<close>: an absolute argument replaces the buffer.\<close>

definition push :: "string \<Rightarrow> string \<Rightarrow> string" where
  "push buf p =
     (if is_absolute p then p
      else if buf \<noteq> [] \<and> last buf \<noteq> CHR ''/'' then buf @ ''/'' @ p
      else buf @ p)"

text \<open>\<^verbatim>\<open>collect::<PathBuf>()\<close> pushes the components one after the other.\<close>

definition collect :: "Component list \<Rightarrow> string" where
  "collect cs = foldl push [] (map as_os_str cs)"

definition join :: "string \<Rightarrow> string \<Rightarrow> string" where
  "join base p = push base p"

text \<open>\<^verbatim>\<open>Path::starts_with\<close> compares whole components.\<close>

definition starts_with :: "string \<Rightarrow> string \<Rightarrow> bool" where
  "starts_with p base \<longleftrightarrow> prefix (components base) (components p)"

text \<open>
  \<^verbatim>\<open>sanitize_path\<close>. The file system enters through \<open>canonicalize\<close>, which resolves a
  path to its canonical form or fails (the path does not exist, a link is broken).
\<close>

definition sanitize_path ::
  "(string \<Rightarrow> string option) \<Rightarrow> string \<Rightarrow> string \<Rightarrow> ToolError + string" where
  "sanitize_path canonicalize base requested =
     (let cleaned = collect (filter (\<lambda>c. c \<noteq> ParentDir) (components requested));
          full = join base cleaned
      in case canonicalize full of
           None \<Rightarrow> Inl PathTraversal
         | Some canonical \<Rightarrow>
             (case canonicalize base of
                None \<Rightarrow> Inl PathTraversal
              | Some canonical_base \<Rightarrow>
                  if \<not> starts_with canonical canonical_base then Inl PathTraversal
                  else Inr canonical))"

section \<open>Command runner (repo_tools/runner.rs)\<close>

definition ALLOWED_COMMANDS :: "string list" where
  "ALLOWED_COMMANDS =
     [''npm test'',
      ''pnpm test'',
      ''yarn test'',
      ''cargo test'',
      ''pytest'',
      ''python -m pytest'',
      ''npm run lint'',
      ''pnpm lint'',
      ''cargo clippy'',
      ''cargo build'',
      ''npm run build'',
      ''pnpm build'']"

text \<open>
  \<^verbatim>\<open>str::split_whitespace\<close> on the UTF-8 bytes of the text: the maximal runs of characters
  that do not have the Unicode property White_Space. \<open>ws_len\<close> is the number of bytes of
  the white-space character a text starts with, and 0 when it starts with none. The
  characters are U+0009 to U+000D and U+0020 (one byte); U+0085 and U+00A0 (C2 85,
  C2 A0); U+1680 (E1 9A 80); U+2000 to U+200A, U+2028, U+2029 and U+202F (E2 80 80 to
  E2 80 8A, E2 80 A8, E2 80 A9, E2 80 AF); U+205F (E2 81 9F); U+3000 (E3 80 80).
  A \<open>string\<close> is the byte sequence of a Rust \<^verbatim>\<open>String\<close>, which is valid UTF-8: there
  none of these encodings begins inside the encoding of another character, so that a
  scan over the bytes finds the white-space characters and no others.
\<close>

definition ws_len :: "string \<Rightarrow> nat" where
  "ws_len s =
     (case s of
        [] \<Rightarrow> 0
      | a # s1 \<Rightarrow>
          (let x = (of_char a :: nat) in
           if (9 \<le> x \<and> x \<le> 13) \<or> x = 32 then 1
           else
             (case s1 of
                [] \<Rightarrow> 0
              | b # s2 \<Rightarrow>
                  (let y = (of_char b :: nat) in
                   if x = 194 then (if y = 133 \<or> y = 160 then 2 else 0)
                   else
                     (case s2 of
                        [] \<Rightarrow> 0
                      | c # _ \<Rightarrow>
                          (let z = (of_char c :: nat) in
                           if x = 225 \<and> y = 154 \<and> z = 128 then 3
                           else if x = 226 \<and> y = 128
                                   \<and> ((128 \<le> z \<and> z \<le> 138) \<or> z = 168 \<or> z = 169 \<or> z = 175)
                                then 3
                           else if x = 226 \<and> y = 129 \<and> z = 159 then 3
                           else if x = 227 \<and> y = 128 \<and> z = 128 then 3
                           else 0))))))"

text \<open>
  The scan: \<open>word\<close> holds the current run, reversed; \<open>skip\<close> is the number of bytes of a
  white-space character still to pass over.
\<close>

fun split_ws :: "string \<Rightarrow> string \<Rightarrow> nat \<Rightarrow> string list" where
  "split_ws [] word skip = (if word = [] then [] else [rev word])"
| "split_ws (c # cs) word skip =
     (if skip > 0 then split_ws cs word (skip - 1)
      else if ws_len (c # cs) > 0
           then (if word = [] then [] else [rev word]) @ split_ws cs [] (ws_len (c # cs) - 1)
      else split_ws cs (c # word) 0)"

definition split_whitespace :: "string \<Rightarrow> string list" where
  "split_whitespace s = split_ws s [] 0"

record Output =
  success :: bool
  exit_code :: "int option"
  stdout :: string
  stderr :: string

record Spawn =
  program :: string
  args :: "string list"
  timeout_secs :: nat

text \<open>
  \<^verbatim>\<open>RepoTools::run_command\<close>. \<open>os\<close> answers a process creation with the child's output or
  with the error of the creation; \<open>spawned\<close> is the list of creations asked for so far.
\<close>

definition run_command ::
  "(Spawn \<Rightarrow> string + Output) \<Rightarrow> json \<Rightarrow> Spawn list \<Rightarrow> (ToolError + json) \<times> Spawn list" where
  "run_command os arguments spawned =
     (case Option.bind (json_get arguments ''command'') as_str of
        None \<Rightarrow> (Inl (InvalidArgs ''command required''), spawned)
      | Some command \<Rightarrow>
          if \<not> list_ex (\<lambda>allowed. prefix allowed command) ALLOWED_COMMANDS
          then (Inl DisallowedCommand, spawned)
          else
            (let timeout =
                   (case Option.bind (json_get arguments ''timeout_secs'') as_u64 of
                      None \<Rightarrow> 120 | Some t \<Rightarrow> t);
                 parts = split_whitespace command
             in case parts of
                  [] \<Rightarrow> (Inl (InvalidArgs ''empty command''), spawned)
                | prog # rest \<Rightarrow>
                    (let child = \<lparr>program = prog, args = rest, timeout_secs = timeout\<rparr> in
                     case os child of
                       Inl e \<Rightarrow> (Inl (Execution e), spawned @ [child])
                     | Inr output \<Rightarrow>
                         (Inr (JObject
                                 [(''success'', JBool (success output)),
                                  (''exit_code'',
                                     (case exit_code output of
                                        None \<Rightarrow> JNull | Some c \<Rightarrow> JNumber c)),
                                  (''stdout'', JString (stdout output)),
                                  (''stderr'', JString (stderr output))]),
                          spawned @ [child]))))"

section \<open>Plan workflow (workflows/plan.rs, commands.rs)\<close>

subsection \<open>Rows, results and the outside world\<close>

record Task =
  task_row_id :: string
  project_id :: string
  title :: string

record Project =
  project_row_id :: string
  name :: string
  repo_path :: string

record Run =
  run_row_id :: string
  task_id :: string
  phase_id :: "string option"
  run_type :: string
  provider :: "string option"
  run_model :: "string option"
  started_at :: string
  ended_at :: "string option"

record Message =
  message_row_id :: string
  message_run_id :: string
  message_role :: string
  message_content :: string
  created_at :: string

record PlanResult =
  run_id :: string
  plan_md :: string
  tool_calls_count :: nat
  truncated :: bool

record PlanError =
  code :: string
  err_message :: string

text \<open>
  The state the workflow acts on. \<open>clock\<close> counts the calls made to the outside (database
  statements, provider calls, tool executions) and is the index at which the outside
  world answers the next one. \<open>provider_log\<close> keeps every call of the provider made by
  the loop: the messages sent and the answer.
\<close>

record world =
  clock :: nat
  runs :: "Run list"
  messages_table :: "Message list"
  artifacts :: "string \<times> string \<rightharpoonup> string"
  provider_log :: "(ChatMessage list \<times> (LlmError + LlmResponse)) list"

text \<open>
  The collaborators of the workflow that are not part of it: the task and project
  store, the settings table, the environment variable, the failure of a database
  statement, the identifier and time sources, the provider behind the client, the tool
  executor and the tool schemas. Each answer may depend on the moment of the call.
\<close>

record env =
  get_task :: "string \<Rightarrow> string + Task"
  get_project :: "string \<Rightarrow> string + Project"
  get_all_settings :: "string + settings"
  settings_error :: "string \<Rightarrow> PlanError"
  SPECTRAIL_API_KEY :: "string option"
  db_failure :: "nat \<Rightarrow> string option"
  new_id :: "nat \<Rightarrow> string"
  now_iso :: "nat \<Rightarrow> string"
  provider_answer :: "nat \<Rightarrow> LlmClient \<Rightarrow> ChatMessage list \<Rightarrow> json list \<Rightarrow> LlmError + LlmResponse"
  execute_repo_tool :: "nat \<Rightarrow> string \<Rightarrow> string \<Rightarrow> string \<Rightarrow> json \<Rightarrow> string + json"
  get_repo_tool_schemas :: "json list"
  lib :: stdlib

definition tick :: "world \<Rightarrow> world" where
  "tick w = w\<lparr>clock := Suc (clock w)\<rparr>"

subsection \<open>Database commands\<close>

definition get_llm_config :: "env \<Rightarrow> string + LlmConfig" where
  "get_llm_config e =
     (case get_all_settings e of
        Inl err \<Rightarrow> Inl err
      | Inr settings \<Rightarrow> Inr (from_settings (lib e) settings))"

text \<open>\<^verbatim>\<open>create_run\<close>: the row is inserted with \<^verbatim>\<open>ended_at = NULL\<close>.\<close>

definition create_run :: "env \<Rightarrow> string \<Rightarrow> string \<Rightarrow> world \<Rightarrow> (string + Run) \<times> world" where
  "create_run e task run_kind w =
     (case get_llm_config e of
        Inl err \<Rightarrow> (Inl err, w)
      | Inr cfg \<Rightarrow>
          (case db_failure e (clock w) of
             Some err \<Rightarrow> (Inl err, tick w)
           | None \<Rightarrow>
               (let run = \<lparr>run_row_id = new_id e (clock w), task_id = task, phase_id = None,
                           run_type = run_kind, provider = Some (provider_name cfg),
                           run_model = Some (model cfg), started_at = now_iso e (clock w),
                           ended_at = None\<rparr>
                in (Inr run, tick (w\<lparr>runs := runs w @ [run]\<rparr>)))))"

definition add_message ::
  "env \<Rightarrow> string \<Rightarrow> string \<Rightarrow> string \<Rightarrow> world \<Rightarrow> (string + unit) \<times> world" where
  "add_message e run role_text content_text w =
     (case db_failure e (clock w) of
        Some err \<Rightarrow> (Inl err, tick w)
      | None \<Rightarrow>
          (Inr (),
           tick (w\<lparr>messages_table := messages_table w @
                     [\<lparr>message_row_id = new_id e (clock w), message_run_id = run,
                       message_role = role_text, message_content = content_text,
                       created_at = now_iso e (clock w)\<rparr>]\<rparr>)))"

text \<open>
  Modelled from the spec: \<^verbatim>\<open>upsert_artifact\<close> is called by the workflow and is not among
  the sources. The spec has artifacts upserted by (task_id, kind): saving a new one
  replaces the previous one of that pair.
\<close>

definition upsert_artifact ::
  "env \<Rightarrow> string \<Rightarrow> string option \<Rightarrow> string \<Rightarrow> string \<Rightarrow> world \<Rightarrow> (string + unit) \<times> world" where
  "upsert_artifact e task phase kind content_text w =
     (case db_failure e (clock w) of
        Some err \<Rightarrow> (Inl err, tick w)
      | None \<Rightarrow> (Inr (), tick (w\<lparr>artifacts := (artifacts w)((task, kind) \<mapsto> content_text)\<rparr>)))"

subsection \<open>Prompts\<close>

definition system_prompt :: string where
  \<open>system_prompt =
     ''You are a senior technical lead creating detailed implementation plans.\<newline>'' @
     ''\<newline>'' @
     ''Your task: Analyze the codebase and produce a comprehensive implementation plan.\<newline>'' @
     ''\<newline>'' @
     ''Required output format (Markdown):\<newline>'' @
     ''\<newline>'' @
     ''# Implementation Plan: [Title]\<newline>'' @
     ''\<newline>'' @
     ''## 1. Summary\<newline>'' @
     ''Brief overview of the approach (2-3 sentences).\<newline>'' @
     ''\<newline>'' @
     ''## 2. Goals & Non-Goals\<newline>'' @
     ''**Goals:**\<newline>'' @
     ''- What this implementation achieves\<newline>'' @
     ''\<newline>'' @
     ''**Non-Goals:**\<newline>'' @
     ''- What is explicitly out of scope\<newline>'' @
     ''\<newline>'' @
     ''## 3. Repo Context Assumptions\<newline>'' @
     ''- Key files/modules that exist\<newline>'' @
     ''- Dependencies to leverage\<newline>'' @
     ''\<newline>'' @
     ''## 4. File-by-File Changes\<newline>'' @
     ''For each file to modify/create:\<newline>'' @
     ''- **Path**: relative path\<newline>'' @
     ''- **Purpose**: what this file does\<newline>'' @
     ''- **Key Changes**: specific modifications\<newline>'' @
     ''\<newline>'' @
     ''## 5. Step-by-Step Implementation Checklist\<newline>'' @
     ''- [ ] Step 1: ...\<newline>'' @
     ''- [ ] Step 2: ...\<newline>'' @
     ''(Ordered by dependency, earliest first)\<newline>'' @
     ''\<newline>'' @
     ''## 6. Risks + Mitigations\<newline>'' @
     ''| Risk | Mitigation |\<newline>'' @
     ''|------|------------|\<newline>'' @
     ''| Risk description | How to address it |\<newline>'' @
     ''\<newline>'' @
     ''## 7. Validation Steps\<newline>'' @
     ''- [ ] Tests: `run_command` with kind="tests"\<newline>'' @
     ''- [ ] Lint: `run_command` with kind="lint"\<newline>'' @
     ''- [ ] Build: `run_command` with kind="build"\<newline>'' @
     ''\<newline>'' @
     ''---\<newline>'' @
     ''\<newline>'' @
     ''Instructions:\<newline>'' @
     ''1. Use the provided tools to explore the codebase before writing the plan\<newline>'' @
     ''2. Call `list_files` to understand the project structure\<newline>'' @
     ''3. Call `read_file` to examine key files\<newline>'' @
     ''4. Call `grep` to find relevant code patterns\<newline>'' @
     ''5. Call `git_status` and `git_diff` to see current state\<newline>'' @
     ''6. Only write the plan after gathering sufficient context\<newline>'' @
     ''7. If you need more information, make another tool call\<newline>'' @
     ''8. When complete, output ONLY the plan in the format above (no tool calls in final output)\<newline>''\<close>

definition user_prompt :: "string \<Rightarrow> string \<Rightarrow> string" where
  \<open>user_prompt task_title repo =
     ''Task: '' @ task_title @ ''\<newline>'' @
     ''\<newline>'' @
     ''Repository: '' @ repo @ ''\<newline>'' @
     ''\<newline>'' @
     ''Please explore this codebase and create a detailed implementation plan.\<newline>'' @
     ''\<newline>'' @
     ''Available tools:\<newline>'' @
     ''- list_files: See project structure\<newline>'' @
     ''- read_file: Examine file contents\<newline>'' @
     ''- grep: Search for patterns\<newline>'' @
     ''- git_status/git_diff: Check current changes\<newline>'' @
     ''- run_command: Run tests/lint/build\<newline>'' @
     ''\<newline>'' @
     ''Start by listing files to understand the project structure, then read key files to understand the codebase before writing your plan.''\<close>

definition build_initial_messages :: "Task \<Rightarrow> Project \<Rightarrow> ChatMessage list" where
  "build_initial_messages task project =
     [\<lparr>role = ''system'', content = Some system_prompt, tool_calls = None,
       tool_call_id = None\<rparr>,
      \<lparr>role = ''user'', content = Some (user_prompt (title task) (repo_path project)),
       tool_calls = None, tool_call_id = None\<rparr>]"

subsection \<open>The loop\<close>

definition MAX_TOOL_ITERATIONS :: nat where
  "MAX_TOOL_ITERATIONS = 12"

definition MAX_CONTEXT_CHARS :: nat where
  "MAX_CONTEXT_CHARS = 100000"

definition truncate_messages :: "ChatMessage list \<Rightarrow> nat \<Rightarrow> ChatMessage list" where
  "truncate_messages messages max_chars =
     (if length messages < 3 then messages
      else
        (let system = (case messages of [] \<Rightarrow> None | m # _ \<Rightarrow> Some m);
             recent = rev (take 6 (rev messages))
         in (case system of None \<Rightarrow> [] | Some sys \<Rightarrow> [sys]) @ recent))"

text \<open>\<^verbatim>\<open>entry(key).or_insert_with(value)\<close> on the members of an object.\<close>

definition or_insert :: "(string \<times> json) list \<Rightarrow> string \<Rightarrow> json \<Rightarrow> (string \<times> json) list" where
  "or_insert obj k v = (case map_of obj k of None \<Rightarrow> obj @ [(k, v)] | Some _ \<Rightarrow> obj)"

definition execute_single_tool ::
  "env \<Rightarrow> string \<Rightarrow> string \<Rightarrow> ToolCall \<Rightarrow> world \<Rightarrow> (PlanError + string) \<times> world" where
  "execute_single_tool e run project tool_call w =
     (case from_str (lib e) (fn_arguments (tc_function tool_call)) of
        Inl err \<Rightarrow>
          (Inl \<lparr>code = ''INVALID_ARGS'',
                err_message = ''Failed to parse tool args: '' @ err\<rparr>, w)
      | Inr arguments \<Rightarrow>
          (let args_with_project =
                 (case arguments of
                    JObject obj \<Rightarrow> JObject (or_insert obj ''project_id'' (JString project))
                  | _ \<Rightarrow> arguments);
               result = execute_repo_tool e (clock w) run project
                          (fn_name (tc_function tool_call)) args_with_project
           in (case result of
                 Inr val \<Rightarrow> (Inr (to_string (lib e) val), tick w)
               | Inl err \<Rightarrow>
                   (Inr (to_string (lib e) (JObject [(''error'', JString err)])), tick w))))"

text \<open>The loop variables of \<^verbatim>\<open>generate_plan\<close>.\<close>

record vars =
  messages :: "ChatMessage list"
  tool_calls_count :: nat
  truncated :: bool
  final_plan :: string

text \<open>The inner loop, \<^verbatim>\<open>for tool_call in tool_calls\<close>, on the message list.\<close>

fun run_tool_calls ::
  "env \<Rightarrow> string \<Rightarrow> string \<Rightarrow> ToolCall list \<Rightarrow> ChatMessage list \<Rightarrow> world \<Rightarrow>
   (PlanError + ChatMessage list) \<times> world" where
  "run_tool_calls e run project [] msgs w = (Inr msgs, w)"
| "run_tool_calls e run project (tool_call # rest) msgs w =
     (case execute_single_tool e run project tool_call w of
        (Inl err, w1) \<Rightarrow> (Inl err, w1)
      | (Inr tool_result, w1) \<Rightarrow>
          (let tool_message = \<lparr>role = ''tool'', content = Some tool_result,
                               tool_calls = None, tool_call_id = Some (tc_id tool_call)\<rparr>;
               msgs1 = msgs @ [tool_message];
               w2 = snd (add_message e run ''tool''
                           (unwrap_or_default (content tool_message)) w1)
           in run_tool_calls e run project rest msgs1 w2))"

function show_nat :: "nat \<Rightarrow> string" where
  "show_nat n =
     (if n < 10 then [''0123456789'' ! n]
      else show_nat (n div 10) @ [''0123456789'' ! (n mod 10)])"
  by pat_completeness auto
termination
  by (relation "measure (\<lambda>n. n)") auto

declare show_nat.simps [simp del]

text \<open>\<^verbatim>\<open>LlmError\<close>'s \<^verbatim>\<open>Display\<close>.\<close>

fun error_text :: "LlmError \<Rightarrow> string" where
  "error_text MissingApiKey =
     ''Missing API key. Set SPECTRAIL_API_KEY environment variable or configure keychain storage.''"
| "error_text (Http e) = ''HTTP error: '' @ e"
| "error_text (Api status msg) = ''API error '' @ show_nat status @ '': '' @ msg"
| "error_text (InvalidResponse msg) = ''Invalid response: '' @ msg"
| "error_text Timeout = ''Timeout''"
| "error_text RateLimited = ''Rate limited''"

definition context_size :: "ChatMessage list \<Rightarrow> nat" where
  "context_size msgs =
     sum_list (map (\<lambda>m. case content m of None \<Rightarrow> 0 | Some c \<Rightarrow> length c) msgs)"

text \<open>
  \<^verbatim>\<open>for iteration in 0..MAX_TOOL_ITERATIONS\<close>; the first argument is the number of
  iterations still to run. A \<^verbatim>\<open>break\<close> and the end of the range both return the loop
  variables; an error leaves the function.
\<close>

fun tool_loop ::
  "nat \<Rightarrow> env \<Rightarrow> LlmClient \<Rightarrow> string \<Rightarrow> string \<Rightarrow> json list \<Rightarrow> vars \<Rightarrow> world \<Rightarrow>
   (PlanError + vars) \<times> world" where
  "tool_loop 0 e client run project tools v w = (Inr v, w)"
| "tool_loop (Suc n) e client run project tools v w =
     (let v1 = (if context_size (messages v) > MAX_CONTEXT_CHARS
                then v\<lparr>truncated := True,
                       messages := truncate_messages (messages v) MAX_CONTEXT_CHARS\<rparr>
                else v);
          answer = provider_answer e (clock w) client (messages v1) tools;
          w1 = tick (w\<lparr>provider_log := provider_log w @ [(messages v1, answer)]\<rparr>)
      in case answer of
           Inl err \<Rightarrow> (Inl \<lparr>code = ''LLM_ERROR'', err_message = error_text err\<rparr>, w1)
         | Inr response \<Rightarrow>
             (case (case resp_content response of
                      None \<Rightarrow> (Inr (), w1)
                    | Some c \<Rightarrow> add_message e run ''assistant'' c w1) of
                (Inl err, w2) \<Rightarrow> (Inl \<lparr>code = ''LOG_ERROR'', err_message = err\<rparr>, w2)
              | (Inr _, w2) \<Rightarrow>
                  (case resp_tool_calls response of
                     None \<Rightarrow>
                       (Inr (v1\<lparr>final_plan := unwrap_or_default (resp_content response)\<rparr>), w2)
                   | Some calls \<Rightarrow>
                       if calls = [] then
                         (Inr (v1\<lparr>final_plan := unwrap_or_default (resp_content response)\<rparr>),
                          w2)
                       else
                         (let v2 = v1\<lparr>tool_calls_count := tool_calls_count v1 + length calls\<rparr>
                          in case run_tool_calls e run project calls (messages v2) w2 of
                               (Inl err, w3) \<Rightarrow> (Inl err, w3)
                             | (Inr msgs, w3) \<Rightarrow>
                                 tool_loop n e client run project tools
                                   (v2\<lparr>messages := msgs @
                                          [\<lparr>role = ''assistant'',
                                            content = resp_content response,
                                            tool_calls = resp_tool_calls response,
                                            tool_call_id = None\<rparr>]\<rparr>)
                                   w3))))"

subsection \<open>The entry point\<close>

text \<open>
  \<^verbatim>\<open>create_run_plan\<close>. The third arm of the source, the failure of the blocking task itself,
  gives the same error code as a failed insertion and is not told apart here.
\<close>

definition create_run_plan :: "env \<Rightarrow> string \<Rightarrow> world \<Rightarrow> (PlanError + Run) \<times> world" where
  "create_run_plan e task w =
     (case create_run e task ''plan'' w of
        (Inr run, w1) \<Rightarrow> (Inr run, w1)
      | (Inl err, w1) \<Rightarrow> (Inl \<lparr>code = ''RUN_CREATE_ERROR'', err_message = err\<rparr>, w1))"

definition get_api_key :: "env \<Rightarrow> PlanError + string" where
  "get_api_key e =
     (case SPECTRAIL_API_KEY e of
        None \<Rightarrow> Inl \<lparr>code = ''NO_API_KEY'',
                     err_message = ''SPECTRAIL_API_KEY environment variable not set''\<rparr>
      | Some k \<Rightarrow> Inr k)"

definition limit_note :: string where
  \<open>limit_note =
     ''\<newline>\<newline>---\<newline>\<newline>**Note**: Reached maximum tool call limit ('' @
     show_nat MAX_TOOL_ITERATIONS @
     ''). Plan may be incomplete.\<newline>Consider breaking this task into smaller phases.''\<close>

definition generate_plan ::
  "env \<Rightarrow> string \<Rightarrow> string \<Rightarrow> world \<Rightarrow> (PlanError + PlanResult) \<times> world" where
  "generate_plan e project task w =
     (case get_task e task of
        Inl err \<Rightarrow> (Inl \<lparr>code = ''TASK_NOT_FOUND'', err_message = err\<rparr>, w)
      | Inr task_row \<Rightarrow>
     (case get_project e project of
        Inl err \<Rightarrow> (Inl \<lparr>code = ''PROJECT_NOT_FOUND'', err_message = err\<rparr>, w)
      | Inr project_row \<Rightarrow>
     (case get_all_settings e of
        Inl err \<Rightarrow> (Inl (settings_error e err), w)
      | Inr settings \<Rightarrow>
     (let llm_config = build_llm_config (lib e) settings in
      case get_api_key e of
        Inl err \<Rightarrow> (Inl err, w)
      | Inr key \<Rightarrow>
     (case create_run_plan e task w of
        (Inl err, w1) \<Rightarrow> (Inl err, w1)
      | (Inr run, w1) \<Rightarrow>
     (let msgs = build_initial_messages task_row project_row;
          tools = get_repo_tool_schemas e;
          client = \<lparr>config = llm_config, api_key = key\<rparr>;
          v0 = \<lparr>messages = msgs, tool_calls_count = 0, truncated = False, final_plan = []\<rparr>
      in case tool_loop MAX_TOOL_ITERATIONS e client (run_row_id run) project tools v0 w1 of
           (Inl err, w2) \<Rightarrow> (Inl err, w2)
         | (Inr v, w2) \<Rightarrow>
             (let v' = (if tool_calls_count v \<ge> MAX_TOOL_ITERATIONS \<and> final_plan v = []
                        then v\<lparr>final_plan := final_plan v @ limit_note, truncated := True\<rparr>
                        else v)
              in case upsert_artifact e task None ''plan_md'' (final_plan v') w2 of
                   (Inl err, w3) \<Rightarrow>
                     (Inl \<lparr>code = ''ARTIFACT_ERROR'', err_message = err\<rparr>, w3)
                 | (Inr _, w3) \<Rightarrow>
                     (Inr \<lparr>run_id = run_row_id run, plan_md = final_plan v',
                           PlanResult.tool_calls_count = tool_calls_count v',
                           PlanResult.truncated = truncated v'\<rparr>, w3))))))))"

section \<open>Vocabulary of the statements\<close>

text \<open>An answer of the provider that asks for at least one tool (no final answer).\<close>

definition asks_for_tools :: "LlmError + LlmResponse \<Rightarrow> bool" where
  "asks_for_tools answer =
     (case answer of
        Inl _ \<Rightarrow> False
      | Inr response \<Rightarrow>
          (case resp_tool_calls response of
             None \<Rightarrow> False
           | Some calls \<Rightarrow> calls \<noteq> []))"

text \<open>The variables and the world after the context check and the provider call.\<close>

definition checked :: "vars \<Rightarrow> vars" where
  "checked v =
     (if context_size (messages v) > MAX_CONTEXT_CHARS
      then v\<lparr>truncated := True, messages := truncate_messages (messages v) MAX_CONTEXT_CHARS\<rparr>
      else v)"

text \<open>
  The messages table of \<open>w'\<close> is the one of \<open>w\<close> with rows appended, all for run \<open>run\<close>.
\<close>

definition appended_for :: "string \<Rightarrow> world \<Rightarrow> world \<Rightarrow> bool" where
  "appended_for run w w' \<longleftrightarrow>
     (\<exists>rows. messages_table w' = messages_table w @ rows
             \<and> list_all (\<lambda>m. message_run_id m = run) rows)"

text \<open>
  The property of C4 on a message list: every assistant message that carries tool calls
  is followed, up to the next assistant message, by exactly one tool message per call,
  with the ids of the calls in their order.
\<close>

fun tool_calls_answered :: "ChatMessage list \<Rightarrow> bool" where
  "tool_calls_answered [] = True"
| "tool_calls_answered (m # ms) =
     ((if role m = ''assistant'' then
         (case tool_calls m of
            None \<Rightarrow> True
          | Some calls \<Rightarrow>
              (let answers = takeWhile (\<lambda>x. role x \<noteq> ''assistant'') ms
               in list_all (\<lambda>x. role x = ''tool'') answers
                  \<and> map tool_call_id answers = map (\<lambda>c. Some (tc_id c)) calls))
       else True)
      \<and> tool_calls_answered ms)"

text \<open>
  The tool messages a turn makes of its calls when the first of them is executed at
  moment \<open>t\<close>: each call takes two moments, one for the executor and one for the
  database. They serve the proofs about the inner loop.
\<close>

definition tool_payload :: "env \<Rightarrow> nat \<Rightarrow> string \<Rightarrow> string \<Rightarrow> ToolCall \<Rightarrow> json \<Rightarrow> string" where
  "tool_payload e t run p tc a =
     (case execute_repo_tool e t run p (fn_name (tc_function tc))
             (case a of
                JObject obj \<Rightarrow> JObject (or_insert obj ''project_id'' (JString p))
              | _ \<Rightarrow> a) of
        Inr val \<Rightarrow> to_string (lib e) val
      | Inl err \<Rightarrow> to_string (lib e) (JObject [(''error'', JString err)]))"

fun tool_answers :: "env \<Rightarrow> nat \<Rightarrow> string \<Rightarrow> string \<Rightarrow> ToolCall list \<Rightarrow> ChatMessage list" where
  "tool_answers e t run p [] = []"
| "tool_answers e t run p (tc # rest) =
     \<lparr>role = ''tool'',
      content = (case from_str (lib e) (fn_arguments (tc_function tc)) of
                   Inl _ \<Rightarrow> None
                 | Inr a \<Rightarrow> Some (tool_payload e t run p tc a)),
      tool_calls = None, tool_call_id = Some (tc_id tc)\<rparr>
     # tool_answers e (t + 2) run p rest"

section \<open>Concrete scenarios\<close>

text \<open>The inputs at which the theorems below are exercised.\<close>

definition client0 :: LlmClient where
  "client0 = \<lparr>config = \<lparr>provider_name = ''openai'', base_url = ''https://api.openai.com/v1'',
                         model = ''gpt-4o'', temperature = 2 / 10, max_tokens = 4000,
                         extra_headers = JObject []\<rparr>,
              api_key = ''sk-test''\<rparr>"

definition net_503_then_200 :: "nat \<Rightarrow> http_reply" where
  "net_503_then_200 k = (if k = 0 then Reply 503 ''busy'' else Reply 200 ''{}'')"

definition decode_no_choices :: "string \<Rightarrow> string + TextMessage OpenAIChatResponse" where
  "decode_no_choices body = Inr \<lparr>resp_id = ''r1'', resp_model = ''gpt-4o'', choices = []\<rparr>"

definition list_files_call :: ToolCall where
  "list_files_call = \<lparr>tc_id = ''call_1'',
                      tc_function = \<lparr>fn_name = ''list_files'', fn_arguments = ''{}''\<rparr>\<rparr>"

definition decode_one_choice :: "string \<Rightarrow> string + ChatMessage OpenAIChatResponse" where
  "decode_one_choice body =
     Inr \<lparr>resp_id = ''r1'', resp_model = ''gpt-4o'',
          choices = [\<lparr>index = 0,
                      message = \<lparr>role = ''assistant'', content = None,
                                 tool_calls = Some [list_files_call], tool_call_id = None\<rparr>,
                      finish_reason = ''tool_calls''\<rparr>]\<rparr>"

definition net_always_401 :: "nat \<Rightarrow> http_reply" where
  "net_always_401 k = Reply 401 ''denied''"

text \<open>
  The library at the texts the scenarios use: the float parser on \<^verbatim>\<open>0.2\<close>, the JSON parser on
  the empty object and on the empty text (which is not JSON), the JSON printer on
  objects with one text member. Other inputs do not occur below.
\<close>

definition lib0 :: stdlib where
  \<open>lib0 =
     \<lparr>parse_f64 = (\<lambda>s. if s = ''0.2'' then Some (2 / 10) else None),
      from_str = (\<lambda>s. if s = ''{}'' then Inr (JObject [])
                      else if s = [] then Inl ''EOF while parsing a value at line 1 column 0''
                      else Inl ''expected value at line 1 column 1''),
      to_string = (\<lambda>v. case v of
                          JObject [(k, JString s)] \<Rightarrow> ''{"'' @ k @ ''":"'' @ s @ ''"}''
                        | _ \<Rightarrow> ''{}'')\<rparr>\<close>

definition settings_no_url :: settings where
  "settings_no_url = [''max_tokens'' \<mapsto> ''lots'', ''temperature'' \<mapsto> ''warm'']"

definition fs0 :: "string \<Rightarrow> string option" where
  "fs0 p =
     (if p = ''/repo'' \<or> p = ''/repo/README.md'' \<or> p = ''/etc/passwd'' then Some p
      else if p = ''/repo/link'' then Some ''/etc/passwd''
      else None)"

definition os0 :: "Spawn \<Rightarrow> string + Output" where
  "os0 child = Inr \<lparr>success = True, exit_code = Some 0, stdout = ''ok'', stderr = []\<rparr>"

definition net_always_500 :: "nat \<Rightarrow> http_reply" where
  "net_always_500 k = Reply 500 ''busy''"

text \<open>
  A world for the plan workflow: one task, one project, a database that accepts every
  statement, a tool executor that knows \<open>git_status\<close> only.
\<close>

definition git_status_call :: ToolCall where
  "git_status_call = \<lparr>tc_id = ''call_1'',
                      tc_function = \<lparr>fn_name = ''git_status'', fn_arguments = ''{}''\<rparr>\<rparr>"

definition env0 :: env where
  "env0 =
     \<lparr>get_task = (\<lambda>i. if i = ''task-1''
                        then Inr \<lparr>task_row_id = ''task-1'', project_id = ''proj-1'',
                                  title = ''Add login''\<rparr>
                        else Inl ''task not found''),
      get_project = (\<lambda>i. if i = ''proj-1''
                           then Inr \<lparr>project_row_id = ''proj-1'', name = ''demo'',
                                     repo_path = ''/repo''\<rparr>
                           else Inl ''project not found''),
      get_all_settings = Inr (migrate_002 Map.empty),
      settings_error = (\<lambda>err. \<lparr>code = ''SETTINGS_ERROR'', err_message = err\<rparr>),
      SPECTRAIL_API_KEY = Some ''sk-test'',
      db_failure = (\<lambda>t. None),
      new_id = (\<lambda>t. ''id-'' @ show_nat t),
      now_iso = (\<lambda>t. ''2026-01-01T00:00:00Z''),
      provider_answer =
        (\<lambda>t client msgs tools.
           Inr \<lparr>resp_content = None, resp_tool_calls = Some [git_status_call]\<rparr>),
      execute_repo_tool =
        (\<lambda>t run project tool arguments.
           if tool = ''git_status'' then Inr (JObject [(''status'', JString ''## main'')])
           else Inl (''Unknown tool: '' @ tool)),
      get_repo_tool_schemas = [],
      lib = lib0\<rparr>"

text \<open>The provider asks for \<open>git_status\<close> once and then answers with the plan.\<close>

definition env_plan :: env where
  "env_plan =
     env0\<lparr>provider_answer :=
            (\<lambda>t client msgs tools.
               if length msgs \<le> 2
               then Inr \<lparr>resp_content = None, resp_tool_calls = Some [git_status_call]\<rparr>
               else Inr \<lparr>resp_content = Some ''# Implementation Plan: Add login'',
                         resp_tool_calls = None\<rparr>)\<rparr>"





definition w0 :: world where
  "w0 = \<lparr>clock = 0, runs = [], messages_table = [], artifacts = Map.empty,
          provider_log = []\<rparr>"

text \<open>
  The context after a first turn whose tool result is large: system, user, the tool
  message of 150000 characters, the assistant message that asked for the tool.
\<close>

definition system_message :: ChatMessage where
  "system_message = \<lparr>role = ''system'', content = Some system_prompt, tool_calls = None,
                      tool_call_id = None\<rparr>"

definition user_message :: ChatMessage where
  "user_message = \<lparr>role = ''user'', content = Some (user_prompt ''Add login'' ''/repo''),
                    tool_calls = None, tool_call_id = None\<rparr>"

definition big_tool_message :: ChatMessage where
  "big_tool_message = \<lparr>role = ''tool'', content = Some (replicate 150000 (CHR ''x'')),
                        tool_calls = None, tool_call_id = Some ''call_1''\<rparr>"

definition assistant_message :: ChatMessage where
  "assistant_message = \<lparr>role = ''assistant'', content = None,
                         tool_calls = Some [git_status_call], tool_call_id = None\<rparr>"

definition big_context :: "ChatMessage list" where
  "big_context = [system_message, user_message, big_tool_message, assistant_message]"

text \<open>The same run as \<open>env_plan\<close>, with a tool result that prints as 150000 characters.\<close>

definition env_big_result :: env where
  "env_big_result =
     env_plan\<lparr>lib := lib0\<lparr>to_string := (\<lambda>v. replicate 150000 (CHR ''x''))\<rparr>\<rparr>"

section \<open>The client: decoding and retries\<close>

lemma rebuild_tool_call:
  "\<lparr>tc_id = tc_id tc,
    tc_function = \<lparr>fn_name = fn_name (tc_function tc),
                   fn_arguments = fn_arguments (tc_function tc)\<rparr>\<rparr> = (tc :: ToolCall)"
  by (cases tc) simp

text \<open>The driver goes on after transient errors until the first success.\<close>

lemma retry_first_success:
  "n \<le> length delays \<Longrightarrow> \<forall>j<n. \<exists>err. attempt (k + j) = Inl (Transient err) \<Longrightarrow>
   attempt (k + n) = Inr v \<Longrightarrow> retry delays attempt k = (Inr v, Suc (k + n))"
proof (induction delays arbitrary: k n)
  case Nil
  then show ?case by simp
next
  case (Cons d delays)
  show ?case
  proof (cases n)
    case 0
    with Cons.prems show ?thesis by simp
  next
    case (Suc m)
    from Cons.prems Suc obtain err where e: "attempt k = Inl (Transient err)"
      by (metis add.right_neutral zero_less_Suc)
    have "\<forall>j<m. \<exists>err. attempt (Suc k + j) = Inl (Transient err)"
      using Cons.prems(2) Suc by (metis Suc_less_eq add_Suc_shift)
    moreover have "attempt (Suc k + m) = Inr v"
      using Cons.prems(3) Suc by simp
    moreover have "m \<le> length delays"
      using Cons.prems(1) Suc by simp
    ultimately have "retry delays attempt (Suc k) = (Inr v, Suc (Suc k + m))"
      by (rule Cons.IH[rotated])
    with e Suc show ?thesis by simp
  qed
qed

text \<open>When every attempt fails with a transient error, the driver uses every delay.\<close>

lemma retry_all_transient:
  "\<forall>j\<le>length delays. \<exists>err. attempt (k + j) = Inl (Transient err) \<Longrightarrow>
   \<exists>err. attempt (k + length delays) = Inl (Transient err)
       \<and> retry delays attempt k = (Inl err, Suc (k + length delays))"
proof (induction delays arbitrary: k)
  case Nil
  then show ?case by auto
next
  case (Cons d delays)
  from Cons.prems obtain err where e: "attempt k = Inl (Transient err)"
    by (metis add.right_neutral le0)
  have "\<forall>j\<le>length delays. \<exists>err. attempt (Suc k + j) = Inl (Transient err)"
    using Cons.prems by (metis Suc_le_mono add_Suc_shift length_Cons)
  from Cons.IH[OF this] e show ?case by simp
qed

lemma retry_permanent:
  "attempt k = Inl (Permanent err) \<Longrightarrow> retry delays attempt k = (Inl err, Suc k)"
  by (cases delays) simp_all

text \<open>
  C10. When a request of the client succeeds and the decoded body has an empty \<open>choices\<close>
  array, \<open>chat\<close> and \<open>chat_with_tools\<close> return the error
  \<open>InvalidResponse "No choices in response"\<close>; when \<open>choices\<close> is not empty they return
  the first choice's message: its content for \<open>chat\<close>, its content and tool calls for
  \<open>chat_with_tools\<close>. The successful reply may come after failed attempts that reached
  the driver as transient errors.
\<close>

theorem chat_first_choice_or_invalid_response:
  assumes key: "api_key self \<noteq> []"
    and n: "n \<le> length delays"
    and before: "\<forall>j<n. \<exists>err. operation decode (net j) = Inl err
                            \<and> to_backoff err = Transient err"
    and before_t: "\<forall>j<n. \<exists>err. operation decode_t (net j) = Inl err
                              \<and> to_backoff err = Transient err"
    and reply: "net n = Reply status body" and ok: "is_success status"
    and dec: "decode body = Inr r" and dec_t: "decode_t body = Inr rt"
  shows "fst (chat self to_backoff decode delays net msgs)
           = (case choices r of
                [] \<Rightarrow> Inl (InvalidResponse ''No choices in response'')
              | c # _ \<Rightarrow> Inr (TextMessage.content (message c)))
       \<and> fst (chat_with_tools self to_backoff decode_t delays net tmsgs tools)
           = (case choices rt of
                [] \<Rightarrow> Inl (InvalidResponse ''No choices in response'')
              | c # _ \<Rightarrow> Inr \<lparr>resp_content = ChatMessage.content (message c),
                                resp_tool_calls = tool_calls (message c)\<rparr>)"
proof -
  let ?a = "\<lambda>k. map_err to_backoff (operation decode (net k))"
  let ?b = "\<lambda>k. map_err to_backoff (operation decode_t (net k))"
  have "?a (0 + n) = Inr r" "?b (0 + n) = Inr rt"
    using reply ok dec dec_t by (simp_all add: operation_def map_err_def)
  moreover have "\<forall>j<n. \<exists>err. ?a (0 + j) = Inl (Transient err)"
    using before by (fastforce simp: map_err_def)
  moreover have "\<forall>j<n. \<exists>err. ?b (0 + j) = Inl (Transient err)"
    using before_t by (fastforce simp: map_err_def)
  ultimately have ra: "retry delays ?a 0 = (Inr r, Suc (0 + n))"
    and rb: "retry delays ?b 0 = (Inr rt, Suc (0 + n))"
    using n retry_first_success[of n delays ?a 0 r] retry_first_success[of n delays ?b 0 rt]
    by blast+
  show ?thesis
    using key ra rb
    by (simp add: chat_def chat_with_tools_def rebuild_tool_call option.map_ident
             split: list.splits)
qed

text \<open>
  A 503 followed by a 200: a body without choices gives the error, a body with one
  choice gives that choice's tool call.
\<close>

theorem chat_first_choice_or_invalid_response_witness:
  "api_key client0 \<noteq> [] \<and> (1::nat) \<le> length [500, 750 :: nat]
   \<and> operation decode_no_choices (net_503_then_200 0) = Inl (Api 503 ''busy'')
   \<and> operation decode_one_choice (net_503_then_200 0) = Inl (Api 503 ''busy'')
   \<and> net_503_then_200 1 = Reply 200 ''{}'' \<and> is_success 200
   \<and> fst (chat client0 Transient decode_no_choices [500, 750] net_503_then_200 [])
        = Inl (InvalidResponse ''No choices in response'')
   \<and> fst (chat_with_tools client0 Transient decode_one_choice [500, 750] net_503_then_200 [] [])
        = Inr \<lparr>resp_content = None, resp_tool_calls = Some [list_files_call]\<rparr>"
proof -
  have h: "\<forall>j<1. \<exists>err. operation decode_no_choices (net_503_then_200 j) = Inl err
                          \<and> Transient err = Transient err"
    and ht: "\<forall>j<1. \<exists>err. operation decode_one_choice (net_503_then_200 j) = Inl err
                           \<and> Transient err = Transient err"
    by (simp_all add: operation_def net_503_then_200_def is_success_def)
  have k: "api_key client0 \<noteq> []" by (simp add: client0_def)
  have s: "is_success 200" by (simp add: is_success_def)
  have r: "net_503_then_200 1 = Reply 200 ''{}''" by (simp add: net_503_then_200_def)
  have n: "(1::nat) \<le> length [500, 750 :: nat]" by simp
  show ?thesis
    using chat_first_choice_or_invalid_response
            [of client0 1 "[500, 750]" decode_no_choices net_503_then_200 Transient
                decode_one_choice 200 "''{}''" _ _ "[]" "[]" "[]", OF k n h ht r s]
          k s r
    by (simp add: decode_no_choices_def decode_one_choice_def operation_def
                  net_503_then_200_def is_success_def)
qed

text \<open>
  C5 fails on the code. The client builds the policy with an initial interval of 500 ms,
  an interval cap of 4 s and an elapsed cap of 30 s, and a 401 comes back as
  \<open>Api 401 "Invalid API key"\<close>. But the operation returns every failure as a bare error
  and marks none as permanent or transient, also where it tells the statuses apart. The
  driver receives all of them in one and the same class, so it cannot send a request
  again after a 429 or a 500 and not after a 401: whichever class it is, two providers
  that fail at every attempt get the same number of requests, whatever the failures
  are. If the class is transient that number is one per granted delay plus one, also for
  a 400, 401, 403, 404 or 422; if it is permanent the number is one, also for a network
  error, a 429 or a 500.
\<close>

theorem retry_cannot_tell_failures_apart:
  assumes blind: "to_backoff = Transient \<or> to_backoff = Permanent"
    and key: "api_key self \<noteq> []"
    and fail: "\<forall>k\<le>length delays. \<exists>err. operation decode (net k) = Inl err"
    and fail': "\<forall>k\<le>length delays. \<exists>err. operation decode (net' k) = Inl err"
  shows "snd (chat self to_backoff decode delays net msgs)
           = snd (chat self to_backoff decode delays net' msgs)
       \<and> snd (chat self Transient decode delays net msgs) = Suc (length delays)
       \<and> snd (chat self Permanent decode delays net msgs) = 1
       \<and> fst (chat self to_backoff decode delays (\<lambda>k. Reply 401 body) msgs)
           = Inl (Api 401 ''Invalid API key'')
       \<and> operation decode (Reply 401 body) = Inl (Api 401 ''Invalid API key'')
       \<and> operation decode (Reply 429 body) = Inl RateLimited
       \<and> operation decode (Reply 400 body) = Inl (Api 400 body)
       \<and> operation decode (Reply 500 body) = Inl (Api 500 body)
       \<and> initial_interval backoff = 500 \<and> max_interval backoff = 4000
       \<and> max_elapsed_time backoff = Some 30000"
proof -
  have transient: "\<exists>err. operation decode (f (length delays)) = Inl err
                     \<and> chat self Transient decode delays f msgs = (Inl err, Suc (length delays))"
    if "\<forall>k\<le>length delays. \<exists>err. operation decode (f k) = Inl err" for f
  proof -
    let ?a = "\<lambda>k. map_err Transient (operation decode (f k))"
    have "\<forall>j\<le>length delays. \<exists>err. ?a (0 + j) = Inl (Transient err)"
      using that by (fastforce simp: map_err_def)
    from retry_all_transient[OF this]
    obtain err where a: "?a (length delays) = Inl (Transient err)"
      and r: "retry delays ?a 0 = (Inl err, Suc (length delays))"
      by auto
    from a have "operation decode (f (length delays)) = Inl err"
      by (cases "operation decode (f (length delays))") (simp_all add: map_err_def)
    with key r show ?thesis by (simp add: chat_def)
  qed
  have permanent: "\<exists>err. operation decode (f 0) = Inl err
                     \<and> chat self Permanent decode delays f msgs = (Inl err, 1)"
    if "\<forall>k\<le>length delays. \<exists>err. operation decode (f k) = Inl err" for f
  proof -
    from that obtain err where e: "operation decode (f 0) = Inl err" by auto
    let ?a = "\<lambda>k. map_err Permanent (operation decode (f k))"
    have "?a 0 = Inl (Permanent err)" using e by (simp add: map_err_def)
    then have "retry delays ?a 0 = (Inl err, Suc 0)" by (rule retry_permanent)
    with key e show ?thesis by (simp add: chat_def)
  qed
  have u: "\<forall>k\<le>length delays. \<exists>err. operation decode (Reply 401 body) = Inl err"
    by (simp add: operation_def is_success_def)
  have o: "operation decode (Reply 401 body) = Inl (Api 401 ''Invalid API key'')"
    by (simp add: operation_def is_success_def)
  have same: "snd (chat self to_backoff decode delays net msgs)
                = snd (chat self to_backoff decode delays net' msgs)"
    using blind transient[OF fail] transient[OF fail'] permanent[OF fail] permanent[OF fail']
    by auto
  have unauthorized: "fst (chat self to_backoff decode delays (\<lambda>k. Reply 401 body) msgs)
                        = Inl (Api 401 ''Invalid API key'')"
    using blind transient[of "\<lambda>k. Reply 401 body", OF u]
      permanent[of "\<lambda>k. Reply 401 body", OF u] o
    by auto
  from same unauthorized transient[OF fail] permanent[OF fail] show ?thesis
    by (auto simp: operation_def is_success_def backoff_def)
qed

text \<open>
  Two providers, one answering 401 and one answering 500 to every request, and a policy
  that grants two delays: three requests each when bare errors are transient, one each
  when they are permanent.
\<close>

theorem retry_cannot_tell_failures_apart_witness:
  "api_key client0 \<noteq> []
   \<and> operation decode_no_choices (net_always_401 0) = Inl (Api 401 ''Invalid API key'')
   \<and> operation decode_no_choices (net_always_500 0) = Inl (Api 500 ''busy'')
   \<and> chat client0 Transient decode_no_choices [500, 750] net_always_401 []
        = (Inl (Api 401 ''Invalid API key''), 3)
   \<and> chat client0 Transient decode_no_choices [500, 750] net_always_500 []
        = (Inl (Api 500 ''busy''), 3)
   \<and> chat client0 Permanent decode_no_choices [500, 750] net_always_401 []
        = (Inl (Api 401 ''Invalid API key''), 1)
   \<and> chat client0 Permanent decode_no_choices [500, 750] net_always_500 []
        = (Inl (Api 500 ''busy''), 1)"
proof -
  have k: "api_key client0 \<noteq> []" by (simp add: client0_def)
  have o: "\<And>k. operation decode_no_choices (net_always_401 k) = Inl (Api 401 ''Invalid API key'')"
    and o': "\<And>k. operation decode_no_choices (net_always_500 k) = Inl (Api 500 ''busy'')"
    by (simp_all add: operation_def net_always_401_def net_always_500_def is_success_def)
  have f: "\<forall>k\<le>length [500, 750 :: nat]. \<exists>err. operation decode_no_choices (net_always_401 k) = Inl err"
    and f': "\<forall>k\<le>length [500, 750 :: nat]. \<exists>err. operation decode_no_choices (net_always_500 k) = Inl err"
    using o o' by simp_all
  have t: "(Transient :: LlmError \<Rightarrow> LlmError backoff_error) = Transient \<or> Transient = Permanent"
    by simp
  from retry_cannot_tell_failures_apart[where body = "[]" and msgs = "[]", OF t k f f']
  have c1: "snd (chat client0 Transient decode_no_choices [500, 750] net_always_401 []) = 3"
    and c2: "snd (chat client0 Transient decode_no_choices [500, 750] net_always_500 []) = 3"
    and c3: "snd (chat client0 Permanent decode_no_choices [500, 750] net_always_401 []) = 1"
    by simp_all
  from retry_cannot_tell_failures_apart[where body = "[]" and msgs = "[]", OF t k f' f]
  have c4: "snd (chat client0 Permanent decode_no_choices [500, 750] net_always_500 []) = 1"
    by simp
  have e: "fst (chat client0 Transient decode_no_choices [500, 750] net_always_401 [])
             = Inl (Api 401 ''Invalid API key'')"
    "fst (chat client0 Transient decode_no_choices [500, 750] net_always_500 [])
             = Inl (Api 500 ''busy'')"
    "fst (chat client0 Permanent decode_no_choices [500, 750] net_always_401 [])
             = Inl (Api 401 ''Invalid API key'')"
    "fst (chat client0 Permanent decode_no_choices [500, 750] net_always_500 [])
             = Inl (Api 500 ''busy'')"
    by (simp_all add: chat_def client0_def operation_def net_always_401_def
          net_always_500_def is_success_def map_err_def)
  from k o o' c1 c2 c3 c4 e show ?thesis
    by (simp add: prod_eq_iff)
qed

section \<open>Settings defaults\<close>

lemma parse_i64_lots: "parse_i64 ''lots'' = None"
  by (simp add: parse_i64_def digit_of_def)

text \<open>
  C9, as the code has it. When a key is absent, \<open>build_llm_config\<close> falls back to the
  empty text for \<open>provider_name\<close>, \<open>base_url\<close> and \<open>model\<close>; to 0.2 for \<open>temperature\<close>
  and 4000 for \<open>max_tokens\<close>, also when the stored text does not parse; to the empty
  object for \<open>extra_headers_json\<close>, also when the text is not JSON. The migration seeds
  \<open>provider_name\<close>, \<open>temperature\<close>, \<open>extra_headers_json\<close> and \<open>dev_mode\<close> with
  \<open>openai\<close>, \<open>0.2\<close>, \<open>{}\<close> and \<open>0\<close>.
\<close>

theorem build_llm_config_fallbacks:
  "(settings ''provider_name'' = None \<longrightarrow> provider_name (build_llm_config l settings) = [])
   \<and> (settings ''base_url'' = None \<longrightarrow> base_url (build_llm_config l settings) = [])
   \<and> (settings ''model'' = None \<longrightarrow> model (build_llm_config l settings) = [])
   \<and> (Option.bind (settings ''temperature'') (parse_f64 l) = None
        \<longrightarrow> temperature (build_llm_config l settings) = 2 / 10)
   \<and> (Option.bind (settings ''max_tokens'') parse_i64 = None
        \<longrightarrow> max_tokens (build_llm_config l settings) = 4000)
   \<and> (Option.bind (settings ''extra_headers_json'') (\<lambda>s. ok (from_str l s)) = None
        \<longrightarrow> extra_headers (build_llm_config l settings) = JObject [])
   \<and> migrate_002 Map.empty ''provider_name'' = Some ''openai''
   \<and> migrate_002 Map.empty ''temperature'' = Some ''0.2''
   \<and> migrate_002 Map.empty ''extra_headers_json'' = Some ''{}''
   \<and> migrate_002 Map.empty ''dev_mode'' = Some ''0''"
  by (simp add: build_llm_config_def unwrap_or_default_def migrate_002_def settings_002_def)


text \<open>
  The fallbacks at a settings table without provider, URL and model and with numbers
  that do not parse.
\<close>

theorem build_llm_config_fallbacks_witness:
  "settings_no_url ''provider_name'' = None \<and> settings_no_url ''base_url'' = None
   \<and> settings_no_url ''model'' = None
   \<and> Option.bind (settings_no_url ''temperature'') (parse_f64 lib0) = None
   \<and> Option.bind (settings_no_url ''max_tokens'') parse_i64 = None
   \<and> Option.bind (settings_no_url ''extra_headers_json'') (\<lambda>s. ok (from_str lib0 s)) = None
   \<and> provider_name (build_llm_config lib0 settings_no_url) = []
   \<and> base_url (build_llm_config lib0 settings_no_url) = []
   \<and> model (build_llm_config lib0 settings_no_url) = []
   \<and> temperature (build_llm_config lib0 settings_no_url) = 2 / 10
   \<and> max_tokens (build_llm_config lib0 settings_no_url) = 4000
   \<and> extra_headers (build_llm_config lib0 settings_no_url) = JObject []"
  using build_llm_config_fallbacks[of settings_no_url lib0]
  by (simp add: settings_no_url_def lib0_def parse_i64_lots)

text \<open>
  C9 as stated fails: with no settings stored the builder's URL and model are empty,
  not \<open>https://api.openai.com/v1\<close> and \<open>gpt-4o\<close>, and the migration seeds neither of
  these two values.
\<close>

theorem default_base_url_counterexample:
  "base_url (build_llm_config lib0 Map.empty) \<noteq> ''https://api.openai.com/v1''
   \<and> model (build_llm_config lib0 Map.empty) \<noteq> ''gpt-4o''
   \<and> migrate_002 Map.empty ''base_url'' \<noteq> Some ''https://api.openai.com/v1''
   \<and> migrate_002 Map.empty ''model'' \<noteq> Some ''gpt-4o''"
  by (simp add: build_llm_config_def unwrap_or_default_def migrate_002_def settings_002_def)
section \<open>Path containment\<close>

text \<open>
  C2, as the code has it. The file system resolves a path to a canonical absolute path,
  which resolves to itself. \<open>sanitize_path\<close> drops the \<open>..\<close> components of the requested
  path, joins the rest to the root and resolves it. A returned path \<open>P\<close> is that
  resolution: canonical, absolute and starting with the canonical root. The only error
  is \<open>PathTraversal\<close>, and it is the result whenever the resolution lies outside the
  canonical root.
\<close>

theorem sanitize_path_contained:
  assumes canon: "\<forall>p q. canonicalize p = Some q \<longrightarrow> canonicalize q = Some q \<and> is_absolute q"
  shows "(\<forall>P. sanitize_path canonicalize base requested = Inr P \<longrightarrow>
            is_absolute P
            \<and> canonicalize
                (join base (collect (filter (\<lambda>c. c \<noteq> ParentDir) (components requested))))
                = Some P
            \<and> (\<exists>R. canonicalize base = Some R \<and> canonicalize P = Some P
                   \<and> starts_with P R))
       \<and> (\<forall>err. sanitize_path canonicalize base requested = Inl err \<longrightarrow> err = PathTraversal)
       \<and> (\<forall>Q R. canonicalize
                   (join base (collect (filter (\<lambda>c. c \<noteq> ParentDir) (components requested))))
                   = Some Q
                 \<and> canonicalize base = Some R \<and> \<not> starts_with Q R \<longrightarrow>
                 sanitize_path canonicalize base requested = Inl PathTraversal)"
  using canon
  by (auto simp: sanitize_path_def Let_def split: option.splits if_splits)

lemma fs0_canonical: "\<forall>p q. fs0 p = Some q \<longrightarrow> fs0 q = Some q \<and> is_absolute q"
  by (auto simp: fs0_def is_absolute_def split: if_splits)

lemma components_repo: "components ''/repo'' = [RootDir, Normal ''repo'']"
  by (simp add: components_def component_of_def List.map_filter_simps)

lemma components_passwd:
  "components ''/etc/passwd'' = [RootDir, Normal ''etc'', Normal ''passwd'']"
  by (simp add: components_def component_of_def List.map_filter_simps)

lemma sanitize_dotdot: "sanitize_path fs0 ''/repo'' ''../README.md'' = Inr ''/repo/README.md''"
  by (simp add: sanitize_path_def components_def component_of_def List.map_filter_simps
                collect_def join_def push_def is_absolute_def fs0_def starts_with_def)

text \<open>
  In a file system with \<open>/repo/README.md\<close> and a link \<open>/repo/link\<close> to \<open>/etc/passwd\<close>:
  the file is returned, the link is refused.
\<close>

theorem sanitize_path_contained_witness:
  "sanitize_path fs0 ''/repo'' ''README.md'' = Inr ''/repo/README.md''
   \<and> is_absolute ''/repo/README.md''
   \<and> fs0 ''/repo'' = Some ''/repo'' \<and> fs0 ''/repo/README.md'' = Some ''/repo/README.md''
   \<and> starts_with ''/repo/README.md'' ''/repo''
   \<and> fs0 (join ''/repo'' (collect (filter (\<lambda>c. c \<noteq> ParentDir) (components ''link''))))
       = Some ''/etc/passwd''
   \<and> \<not> starts_with ''/etc/passwd'' ''/repo''
   \<and> sanitize_path fs0 ''/repo'' ''link'' = Inl PathTraversal"
proof -
  have a: "sanitize_path fs0 ''/repo'' ''README.md'' = Inr ''/repo/README.md''"
    by (simp add: sanitize_path_def components_def component_of_def List.map_filter_simps
                  collect_def join_def push_def is_absolute_def fs0_def starts_with_def)
  have b: "fs0 (join ''/repo'' (collect (filter (\<lambda>c. c \<noteq> ParentDir) (components ''link''))))
             = Some ''/etc/passwd''"
    by (simp add: components_def component_of_def List.map_filter_simps
                  collect_def join_def push_def is_absolute_def fs0_def)
  have c: "\<not> starts_with ''/etc/passwd'' ''/repo''"
    by (simp add: starts_with_def components_repo components_passwd)
  have d: "fs0 ''/repo'' = Some ''/repo''" by (simp add: fs0_def)
  from sanitize_path_contained[OF fs0_canonical, of "''/repo''" "''README.md''"] a
  have e: "is_absolute ''/repo/README.md'' \<and> fs0 ''/repo/README.md'' = Some ''/repo/README.md''
           \<and> starts_with ''/repo/README.md'' ''/repo''"
    using d by auto
  from sanitize_path_contained[OF fs0_canonical, of "''/repo''" "''link''"] b c d
  have f: "sanitize_path fs0 ''/repo'' ''link'' = Inl PathTraversal"
    by blast
  from a b c d e f show ?thesis by simp
qed

text \<open>
  C2 as stated fails: a requested path with a \<open>..\<close> component yields a usable path.
\<close>

theorem dotdot_usable_counterexample:
  "ParentDir \<in> set (components ''../README.md'')
   \<and> sanitize_path fs0 ''/repo'' ''../README.md'' = Inr ''/repo/README.md''"
  by (simp add: sanitize_dotdot)
     (simp add: components_def component_of_def List.map_filter_simps)
section \<open>The command gate\<close>

text \<open>
  C8, as the code has it. When no entry of the allow-list is a prefix of the requested
  command, \<open>run_command\<close> fails with \<open>DisallowedCommand\<close> and asks for no process. When it
  asks for one, an entry of the allow-list is a prefix of the command, and the child is
  the command's first word with the other words as its arguments, a word being a
  maximal run of characters without the Unicode property White_Space.
\<close>

theorem run_command_prefix_gate:
  "(\<forall>command. Option.bind (json_get arguments ''command'') as_str = Some command
        \<and> \<not> (\<exists>allowed \<in> set ALLOWED_COMMANDS. prefix allowed command)
      \<longrightarrow> run_command os arguments spawned = (Inl DisallowedCommand, spawned))
   \<and> (snd (run_command os arguments spawned) \<noteq> spawned \<longrightarrow>
        (\<exists>command allowed child.
            Option.bind (json_get arguments ''command'') as_str = Some command
          \<and> allowed \<in> set ALLOWED_COMMANDS \<and> prefix allowed command
          \<and> program child # args child = split_whitespace command
          \<and> snd (run_command os arguments spawned) = spawned @ [child]))"
proof (intro conjI allI impI)
  fix command
  assume "Option.bind (json_get arguments ''command'') as_str = Some command
          \<and> \<not> (\<exists>allowed \<in> set ALLOWED_COMMANDS. prefix allowed command)"
  then show "run_command os arguments spawned = (Inl DisallowedCommand, spawned)"
    by (simp add: run_command_def list_ex_iff)
next
  assume changed: "snd (run_command os arguments spawned) \<noteq> spawned"
  then obtain command where c: "Option.bind (json_get arguments ''command'') as_str = Some command"
    by (cases "Option.bind (json_get arguments ''command'') as_str")
       (auto simp: run_command_def)
  with changed have ex: "list_ex (\<lambda>allowed. prefix allowed command) ALLOWED_COMMANDS"
    by (auto simp: run_command_def split: if_splits)
  then obtain allowed where a: "allowed \<in> set ALLOWED_COMMANDS" "prefix allowed command"
    by (auto simp: list_ex_iff)
  from changed c ex obtain prog rest where p: "split_whitespace command = prog # rest"
    by (cases "split_whitespace command") (auto simp: run_command_def Let_def)
  let ?child = "\<lparr>program = prog, args = rest,
                  timeout_secs = (case Option.bind (json_get arguments ''timeout_secs'') as_u64 of
                                    None \<Rightarrow> 120 | Some t \<Rightarrow> t)\<rparr>"
  have "snd (run_command os arguments spawned) = spawned @ [?child]"
    using c ex p by (simp add: run_command_def Let_def split: sum.splits)
  with c a p show "\<exists>command allowed child.
            Option.bind (json_get arguments ''command'') as_str = Some command
          \<and> allowed \<in> set ALLOWED_COMMANDS \<and> prefix allowed command
          \<and> program child # args child = split_whitespace command
          \<and> snd (run_command os arguments spawned) = spawned @ [child]"
    by (intro exI[of _ command] exI[of _ allowed] exI[of _ ?child]) simp
qed

lemma split_cargo: "split_whitespace ''cargo test --release'' = [''cargo'', ''test'', ''--release'']"
  by (simp add: split_whitespace_def ws_len_def)

text \<open>A no-break space (C2 A0) and an em space (E2 80 83) separate words as a space does.\<close>

lemma split_unicode_spaces:
  "split_whitespace (''cargo'' @ [CHR 0xE2, CHR 0x80, CHR 0x83] @ ''test'' @ [CHR 0xC2, CHR 0xA0]
                       @ ''--release'')
     = [''cargo'', ''test'', ''--release'']"
  by (simp add: split_whitespace_def ws_len_def)

lemma run_cargo_release:
  "run_command os0 (JObject [(''command'', JString ''cargo test --release'')]) []
     = (Inr (JObject [(''success'', JBool True), (''exit_code'', JNumber 0),
                      (''stdout'', JString ''ok''), (''stderr'', JString [])]),
        [\<lparr>program = ''cargo'', args = [''test'', ''--release''], timeout_secs = 120\<rparr>])"
  by (simp add: run_command_def ALLOWED_COMMANDS_def split_cargo os0_def)

text \<open>
  \<open>rm -rf /\<close> is refused before anything is spawned; \<open>cargo test --release\<close> passes the
  gate through the entry \<open>cargo test\<close>.
\<close>

theorem run_command_prefix_gate_witness:
  "Option.bind (json_get (JObject [(''command'', JString ''rm -rf /'')]) ''command'') as_str
     = Some ''rm -rf /''
   \<and> \<not> (\<exists>allowed \<in> set ALLOWED_COMMANDS. prefix allowed ''rm -rf /'')
   \<and> run_command os0 (JObject [(''command'', JString ''rm -rf /'')]) []
       = (Inl DisallowedCommand, [])
   \<and> snd (run_command os0 (JObject [(''command'', JString ''cargo test --release'')]) []) \<noteq> []
   \<and> (\<exists>allowed child. allowed \<in> set ALLOWED_COMMANDS
         \<and> prefix allowed ''cargo test --release''
         \<and> program child # args child = split_whitespace ''cargo test --release''
         \<and> snd (run_command os0 (JObject [(''command'', JString ''cargo test --release'')]) [])
             = [child])"
proof -
  have a: "Option.bind (json_get (JObject [(''command'', JString ''rm -rf /'')]) ''command'') as_str
             = Some ''rm -rf /''"
    by simp
  have b: "\<not> (\<exists>allowed \<in> set ALLOWED_COMMANDS. prefix allowed ''rm -rf /'')"
    by (simp add: ALLOWED_COMMANDS_def)
  have c: "snd (run_command os0 (JObject [(''command'', JString ''cargo test --release'')]) []) \<noteq> []"
    by (simp add: run_cargo_release)
  note g = run_command_prefix_gate[of "JObject [(''command'', JString ''rm -rf /'')]" os0 "[]"]
  note h = run_command_prefix_gate[of "JObject [(''command'', JString ''cargo test --release'')]" os0 "[]"]
  from g a b have d: "run_command os0 (JObject [(''command'', JString ''rm -rf /'')]) []
       = (Inl DisallowedCommand, [])"
    by blast
  from h c have e: "\<exists>allowed child. allowed \<in> set ALLOWED_COMMANDS
         \<and> prefix allowed ''cargo test --release''
         \<and> program child # args child = split_whitespace ''cargo test --release''
         \<and> snd (run_command os0 (JObject [(''command'', JString ''cargo test --release'')]) [])
             = [child]"
    by auto
  from a b c d e show ?thesis by blast
qed

text \<open>
  C8 as stated fails: \<open>cargo test --release\<close> is not in the enumerated list, and a process
  is created for it.
\<close>

theorem unlisted_command_spawned_counterexample:
  "''cargo test --release'' \<notin> set ALLOWED_COMMANDS
   \<and> snd (run_command os0 (JObject [(''command'', JString ''cargo test --release'')]) [])
       = [\<lparr>program = ''cargo'', args = [''test'', ''--release''], timeout_secs = 120\<rparr>]"
  by (simp add: run_cargo_release) (simp add: ALLOWED_COMMANDS_def)
section \<open>The plan workflow\<close>

subsection \<open>What the database commands and the tools leave alone\<close>

lemma add_message_frame:
  "provider_log (snd (add_message e run r c w)) = provider_log w"
  "runs (snd (add_message e run r c w)) = runs w"
  by (simp_all add: add_message_def tick_def split: option.splits)

lemma execute_single_tool_frame:
  "provider_log (snd (execute_single_tool e run p tc w)) = provider_log w"
  "runs (snd (execute_single_tool e run p tc w)) = runs w"
  "messages_table (snd (execute_single_tool e run p tc w)) = messages_table w"
  by (simp_all add: execute_single_tool_def tick_def Let_def split: sum.splits)

lemma upsert_artifact_frame:
  "provider_log (snd (upsert_artifact e t ph k c w)) = provider_log w"
  "runs (snd (upsert_artifact e t ph k c w)) = runs w"
  "messages_table (snd (upsert_artifact e t ph k c w)) = messages_table w"
  by (simp_all add: upsert_artifact_def tick_def split: option.splits)

lemma run_tool_calls_frame:
  "provider_log (snd (run_tool_calls e run p calls msgs w)) = provider_log w
   \<and> runs (snd (run_tool_calls e run p calls msgs w)) = runs w"
proof (induction calls arbitrary: msgs w)
  case Nil
  then show ?case by simp
next
  case (Cons tc calls)
  show ?case
  proof (cases "execute_single_tool e run p tc w")
    case (Pair r w1)
    have f: "provider_log w1 = provider_log w" "runs w1 = runs w"
      using execute_single_tool_frame[of e run p tc w] Pair by simp_all
    show ?thesis
    proof (cases r)
      case (Inl err)
      with Pair f show ?thesis by simp
    next
      case (Inr tool_result)
      with Pair f Cons.IH show ?thesis
        by (simp add: Let_def add_message_frame)
    qed
  qed
qed

lemma appended_for_same: "messages_table w' = messages_table w \<Longrightarrow> appended_for run w w'"
  by (simp add: appended_for_def)

lemma appended_for_trans:
  "appended_for run w w1 \<Longrightarrow> appended_for run w1 w2 \<Longrightarrow> appended_for run w w2"
  by (auto simp: appended_for_def)

lemma add_message_appended: "appended_for run w (snd (add_message e run r c w))"
  by (simp add: add_message_def appended_for_def tick_def split: option.splits)

lemma run_tool_calls_appended:
  "appended_for run w (snd (run_tool_calls e run p calls msgs w))"
proof (induction calls arbitrary: msgs w)
  case Nil
  then show ?case by (simp add: appended_for_same)
next
  case (Cons tc calls)
  show ?case
  proof (cases "execute_single_tool e run p tc w")
    case (Pair r w1)
    have f: "appended_for run w w1"
      using execute_single_tool_frame(3)[of e run p tc w] Pair
      by (simp add: appended_for_same)
    show ?thesis
    proof (cases r)
      case (Inl err)
      with Pair f show ?thesis by simp
    next
      case (Inr tool_result)
      let ?w2 = "snd (add_message e run ''tool'' tool_result w1)"
      have "appended_for run w ?w2"
        using f add_message_appended by (rule appended_for_trans)
      then have "appended_for run w (snd (run_tool_calls e run p calls
                   (msgs @ [\<lparr>role = ''tool'', content = Some tool_result, tool_calls = None,
                             tool_call_id = Some (tc_id tc)\<rparr>]) ?w2))"
        using Cons.IH by (rule appended_for_trans)
      with Pair Inr show ?thesis
        by (simp add: Let_def unwrap_or_default_def)
    qed
  qed
qed

subsection \<open>One iteration of the loop\<close>

lemma tool_loop_Suc_cases:
  assumes "tool_loop (Suc n) e c run p tools v w = (res, w')"
  obtains
    (stopped) answer where
      "provider_log w' = provider_log w @ [(messages (checked v), answer)]"
      "runs w' = runs w" "appended_for run w w'"
      "\<not> asks_for_tools answer"
      "\<forall>v'. res = Inr v' \<longrightarrow>
         truncated v' = truncated (checked v) \<and> tool_calls_count v' = tool_calls_count v"
  | (aborted) answer and w1 :: world and err where
      "provider_log w1 = provider_log w @ [(messages (checked v), answer)]"
      "provider_log w' = provider_log w1" "runs w' = runs w" "appended_for run w w'"
      "res = Inl err"
  | (continued) answer and v1 :: vars and w1 :: world and calls :: "ToolCall list" where
      "provider_log w1 = provider_log w @ [(messages (checked v), answer)]"
      "runs w1 = runs w" "appended_for run w w1"
      "asks_for_tools answer" "calls \<noteq> []"
      "final_plan v1 = final_plan v" "truncated v1 = truncated (checked v)"
      "tool_calls_count v1 = tool_calls_count v + length calls"
      "tool_loop n e c run p tools v1 w1 = (res, w')"
proof -
  let ?v1 = "checked v"
  let ?answer = "provider_answer e (clock w) c (messages ?v1) tools"
  let ?w1 = "tick (w\<lparr>provider_log := provider_log w @ [(messages ?v1, ?answer)]\<rparr>)"
  have unfold: "tool_loop (Suc n) e c run p tools v w =
     (case ?answer of
           Inl err \<Rightarrow> (Inl \<lparr>code = ''LLM_ERROR'', err_message = error_text err\<rparr>, ?w1)
         | Inr response \<Rightarrow>
             (case (case resp_content response of
                      None \<Rightarrow> (Inr (), ?w1)
                    | Some c \<Rightarrow> add_message e run ''assistant'' c ?w1) of
                (Inl err, w2) \<Rightarrow> (Inl \<lparr>code = ''LOG_ERROR'', err_message = err\<rparr>, w2)
              | (Inr _, w2) \<Rightarrow>
                  (case resp_tool_calls response of
                     None \<Rightarrow>
                       (Inr (?v1\<lparr>final_plan := unwrap_or_default (resp_content response)\<rparr>), w2)
                   | Some calls \<Rightarrow>
                       if calls = [] then
                         (Inr (?v1\<lparr>final_plan := unwrap_or_default (resp_content response)\<rparr>),
                          w2)
                       else
                         (let v2 = ?v1\<lparr>tool_calls_count := tool_calls_count ?v1 + length calls\<rparr>
                          in case run_tool_calls e run p calls (messages v2) w2 of
                               (Inl err, w3) \<Rightarrow> (Inl err, w3)
                             | (Inr msgs, w3) \<Rightarrow>
                                 tool_loop n e c run p tools
                                   (v2\<lparr>messages := msgs @
                                          [\<lparr>role = ''assistant'',
                                            content = resp_content response,
                                            tool_calls = resp_tool_calls response,
                                            tool_call_id = None\<rparr>]\<rparr>)
                                   w3))))"
    by (simp only: tool_loop.simps Let_def checked_def)
  have l1: "provider_log ?w1 = provider_log w @ [(messages ?v1, ?answer)]" "runs ?w1 = runs w"
    by (simp_all add: tick_def)
  have a1: "appended_for run w ?w1"
    by (simp add: appended_for_same tick_def)
  have cv: "tool_calls_count ?v1 = tool_calls_count v" "final_plan ?v1 = final_plan v"
    by (simp_all add: checked_def)
  show thesis
  proof (cases ?answer)
    case (Inl err)
    with assms unfold l1 a1 show thesis
      by (intro aborted[of ?w1 ?answer]) auto
  next
    case (Inr response)
    obtain lr w2 where log: "(case resp_content response of
                      None \<Rightarrow> (Inr (), ?w1)
                    | Some c \<Rightarrow> add_message e run ''assistant'' c ?w1) = (lr, w2)"
      by (cases "(case resp_content response of
                      None \<Rightarrow> (Inr (), ?w1)
                    | Some c \<Rightarrow> add_message e run ''assistant'' c ?w1)") auto
    have l2: "provider_log w2 = provider_log ?w1" "runs w2 = runs w" "appended_for run w w2"
    proof -
      have "provider_log w2 = provider_log ?w1 \<and> runs w2 = runs w \<and> appended_for run w w2"
      proof (cases "resp_content response")
        case None
        with log l1 a1 show ?thesis by auto
      next
        case (Some ca)
        with log have "snd (add_message e run ''assistant'' ca ?w1) = w2" by simp
        with add_message_frame[of e run "''assistant''" ca ?w1] l1
          appended_for_trans[OF a1 add_message_appended[of run ?w1 e "''assistant''" ca]]
        show ?thesis by simp
      qed
      then show "provider_log w2 = provider_log ?w1" "runs w2 = runs w"
        "appended_for run w w2" by simp_all
    qed
    show thesis
    proof (cases lr)
      case (Inl err)
      with assms unfold Inr log l1 l2 show thesis
        by (intro aborted[of ?w1 ?answer]) auto
    next
      case lr_ok: (Inr u)
      show thesis
      proof (cases "resp_tool_calls response")
        case None
        with assms unfold Inr log lr_ok l1 l2 cv show thesis
          by (intro stopped[of ?answer]) (auto simp: asks_for_tools_def)
      next
        case (Some calls)
        show thesis
        proof (cases "calls = []")
          case True
          with Some assms unfold Inr log lr_ok l1 l2 cv show thesis
            by (intro stopped[of ?answer]) (auto simp: asks_for_tools_def)
        next
          case False
          let ?v2 = "?v1\<lparr>tool_calls_count := tool_calls_count ?v1 + length calls\<rparr>"
          obtain tr w3 where rt: "run_tool_calls e run p calls (messages ?v2) w2 = (tr, w3)"
            by (cases "run_tool_calls e run p calls (messages ?v2) w2") auto
          have l3: "provider_log w3 = provider_log w2" "runs w3 = runs w2"
            using run_tool_calls_frame[of e run p calls "messages ?v2" w2] rt by simp_all
          have a3: "appended_for run w w3"
            using run_tool_calls_appended[of run w2 e p calls "messages ?v2"] rt l2(3)
            by (auto intro: appended_for_trans)
          show thesis
          proof (cases tr)
            case (Inl err)
            with False Some assms unfold Inr log lr_ok l1 l2 l3 a3 rt show thesis
              by (intro aborted[of ?w1 ?answer]) (auto simp: Let_def)
          next
            case tr_ok: (Inr msgs)
            let ?v3 = "?v2\<lparr>messages := msgs @
                                          [\<lparr>role = ''assistant'',
                                            content = resp_content response,
                                            tool_calls = resp_tool_calls response,
                                            tool_call_id = None\<rparr>]\<rparr>"
            have "tool_loop n e c run p tools ?v3 w3 = (res, w')"
              using False Some assms unfold Inr log lr_ok rt tr_ok by (simp add: Let_def)
            moreover have "asks_for_tools ?answer"
              using Inr Some False by (simp add: asks_for_tools_def)
            moreover have "provider_log w3 = provider_log w @ [(messages ?v1, ?answer)]"
              using l1 l2 l3 by simp
            moreover have "runs w3 = runs w" using l2 l3 by simp
            ultimately show thesis
              using False cv a3 by (intro continued[of w3 ?answer calls ?v3]) simp_all
          qed
        qed
      qed
    qed
  qed
qed


subsection \<open>The bound on the provider calls\<close>

lemma tool_loop_calls:
  "tool_loop n e c run p tools v w = (res, w') \<Longrightarrow>
   (\<exists>k\<le>n. length (provider_log w') = length (provider_log w) + k)
   \<and> runs w' = runs w \<and> appended_for run w w'"
proof (induction n arbitrary: v w)
  case 0
  then show ?case by (auto simp: appended_for_same)
next
  case (Suc n)
  from Suc.prems show ?case
  proof (cases rule: tool_loop_Suc_cases)
    case (stopped answer)
    then have "length (provider_log w') = length (provider_log w) + 1" by simp
    with stopped show ?thesis by (intro conjI exI[of _ 1]) simp_all
  next
    case (aborted answer w1 err)
    then have "length (provider_log w') = length (provider_log w) + 1" by simp
    with aborted show ?thesis by (intro conjI exI[of _ 1]) simp_all
  next
    case (continued answer v1 w1 calls)
    from Suc.IH[OF continued(9)] obtain k where k: "k \<le> n"
      "length (provider_log w') = length (provider_log w1) + k"
      and r: "runs w' = runs w1" and a: "appended_for run w1 w'"
      by auto
    from k continued(1) have "length (provider_log w') = length (provider_log w) + Suc k"
      by simp
    with k r a continued show ?thesis
      by (intro conjI exI[of _ "Suc k"]) (auto intro: appended_for_trans)
  qed
qed

text \<open>
  When the loop ends by itself after \<open>n\<close> provider calls, the last of which asked for
  tools, no final plan was set and every iteration counted at least one tool call.
\<close>

lemma tool_loop_exhausted:
  "tool_loop n e c run p tools v w = (Inr v', w') \<Longrightarrow> 0 < n \<Longrightarrow>
   length (provider_log w') = length (provider_log w) + n \<Longrightarrow>
   asks_for_tools (snd (last (provider_log w'))) \<Longrightarrow>
   final_plan v' = final_plan v \<and> tool_calls_count v + n \<le> tool_calls_count v'"
proof (induction n arbitrary: v w)
  case 0
  then show ?case by simp
next
  case (Suc n)
  from Suc.prems(1) show ?case
  proof (cases rule: tool_loop_Suc_cases)
    case (stopped answer)
    with Suc.prems(4) show ?thesis by simp
  next
    case (aborted answer w1 err)
    then show ?thesis by simp
  next
    case (continued answer v1 w1 calls)
    show ?thesis
    proof (cases n)
      case 0
      with continued show ?thesis by (cases calls) auto
    next
      case (Suc m)
      from tool_loop_calls[OF continued(9)] obtain k where
        "k \<le> n" "length (provider_log w') = length (provider_log w1) + k"
        by auto
      with Suc.prems(3) continued(1) have "length (provider_log w') = length (provider_log w1) + n"
        by simp
      with Suc.IH[OF continued(9)] Suc Suc.prems(4)
      have "final_plan v' = final_plan v1 \<and> tool_calls_count v1 + n \<le> tool_calls_count v'"
        by simp
      with continued show ?thesis by (cases calls) auto
    qed
  qed
qed

subsection \<open>The entry point\<close>

lemma create_run_plan_outcome:
  assumes "create_run_plan e task w = (r, w1)"
  shows "provider_log w1 = provider_log w \<and> messages_table w1 = messages_table w
       \<and> (case r of
             Inl err \<Rightarrow> runs w1 = runs w
           | Inr run \<Rightarrow> runs w1 = runs w @ [run] \<and> ended_at run = None
                         \<and> task_id run = task \<and> run_type run = ''plan'')"
  using assms
  by (auto simp: create_run_plan_def create_run_def tick_def Let_def
           split: sum.splits option.splits prod.splits)

text \<open>The plan and the flag that \<^verbatim>\<open>generate_plan\<close> makes of the loop variables.\<close>

lemma generate_plan_outcome:
  assumes "generate_plan e project task w = (res, w')"
  shows "(\<exists>err. res = Inl err \<and> provider_log w' = provider_log w \<and> runs w' = runs w
                \<and> messages_table w' = messages_table w)
       \<or> (\<exists>run w1 client msgs lres w2.
             create_run_plan e task w = (Inr run, w1)
           \<and> tool_loop MAX_TOOL_ITERATIONS e client (run_row_id run) project
                 (get_repo_tool_schemas e)
                 \<lparr>messages = msgs, tool_calls_count = 0, truncated = False, final_plan = []\<rparr> w1
               = (lres, w2)
           \<and> provider_log w' = provider_log w2 \<and> runs w' = runs w2
           \<and> messages_table w' = messages_table w2
           \<and> (case lres of
                 Inl err \<Rightarrow> res = Inl err
               | Inr v \<Rightarrow>
                   (case res of
                      Inl err \<Rightarrow> True
                    | Inr r \<Rightarrow>
                        run_id r = run_row_id run
                      \<and> plan_md r =
                          (if tool_calls_count v \<ge> MAX_TOOL_ITERATIONS \<and> final_plan v = []
                           then final_plan v @ limit_note else final_plan v)
                      \<and> PlanResult.truncated r =
                          (if tool_calls_count v \<ge> MAX_TOOL_ITERATIONS \<and> final_plan v = []
                           then True else truncated v)
                      \<and> PlanResult.tool_calls_count r = tool_calls_count v
                      \<and> artifacts w' (task, ''plan_md'') = Some (plan_md r))))"
proof (cases "get_task e task")
  case (Inl err)
  with assms show ?thesis by (auto simp: generate_plan_def)
next
  case task_ok: (Inr task_row)
  show ?thesis
  proof (cases "get_project e project")
    case (Inl err)
    with assms task_ok show ?thesis by (auto simp: generate_plan_def)
  next
    case project_ok: (Inr project_row)
    show ?thesis
    proof (cases "get_all_settings e")
      case (Inl err)
      with assms task_ok project_ok show ?thesis by (auto simp: generate_plan_def)
    next
      case settings_ok: (Inr settings)
      show ?thesis
      proof (cases "get_api_key e")
        case (Inl err)
        with assms task_ok project_ok settings_ok show ?thesis
          by (auto simp: generate_plan_def)
      next
        case key_ok: (Inr key)
        obtain cr w1 where cr: "create_run_plan e task w = (cr, w1)"
          by (cases "create_run_plan e task w") auto
        note co = create_run_plan_outcome[OF cr]
        show ?thesis
        proof (cases cr)
          case (Inl err)
          with assms task_ok project_ok settings_ok key_ok cr co show ?thesis
            by (auto simp: generate_plan_def)
        next
          case run_ok: (Inr run)
          let ?client = "\<lparr>config = build_llm_config (lib e) settings, api_key = key\<rparr>"
          let ?v0 = "\<lparr>messages = build_initial_messages task_row project_row,
                      tool_calls_count = 0, truncated = False, final_plan = []\<rparr>"
          obtain lres w2 where
            lp: "tool_loop MAX_TOOL_ITERATIONS e ?client (run_row_id run) project
                   (get_repo_tool_schemas e) ?v0 w1 = (lres, w2)"
            by (cases "tool_loop MAX_TOOL_ITERATIONS e ?client (run_row_id run) project
                   (get_repo_tool_schemas e) ?v0 w1") auto
          have g: "generate_plan e project task w =
            (case lres of
               Inl err \<Rightarrow> (Inl err, w2)
             | Inr v \<Rightarrow>
             (let v' = (if tool_calls_count v \<ge> MAX_TOOL_ITERATIONS \<and> final_plan v = []
                        then v\<lparr>final_plan := final_plan v @ limit_note, truncated := True\<rparr>
                        else v)
              in case upsert_artifact e task None ''plan_md'' (final_plan v') w2 of
                   (Inl err, w3) \<Rightarrow>
                     (Inl \<lparr>code = ''ARTIFACT_ERROR'', err_message = err\<rparr>, w3)
                 | (Inr _, w3) \<Rightarrow>
                     (Inr \<lparr>run_id = run_row_id run, plan_md = final_plan v',
                           PlanResult.tool_calls_count = tool_calls_count v',
                           PlanResult.truncated = truncated v'\<rparr>, w3)))"
            using task_ok project_ok settings_ok key_ok cr run_ok lp
            by (simp add: generate_plan_def Let_def)
          have tail: "provider_log w' = provider_log w2 \<and> runs w' = runs w2
              \<and> messages_table w' = messages_table w2
              \<and> (case lres of
                 Inl err \<Rightarrow> res = Inl err
               | Inr v \<Rightarrow>
                   (case res of
                      Inl err \<Rightarrow> True
                    | Inr r \<Rightarrow>
                        run_id r = run_row_id run
                      \<and> plan_md r =
                          (if tool_calls_count v \<ge> MAX_TOOL_ITERATIONS \<and> final_plan v = []
                           then final_plan v @ limit_note else final_plan v)
                      \<and> PlanResult.truncated r =
                          (if tool_calls_count v \<ge> MAX_TOOL_ITERATIONS \<and> final_plan v = []
                           then True else truncated v)
                      \<and> PlanResult.tool_calls_count r = tool_calls_count v
                      \<and> artifacts w' (task, ''plan_md'') = Some (plan_md r)))"
          proof (cases lres)
            case (Inl err)
            with assms g show ?thesis by simp
          next
            case (Inr v)
            with assms g show ?thesis
              by (auto simp: Let_def upsert_artifact_def tick_def
                       split: if_splits option.splits)
          qed
          show ?thesis
            apply (rule disjI2)
            apply (rule exI[of _ run], rule exI[of _ w1], rule exI[of _ ?client])
            apply (rule exI[of _ "build_initial_messages task_row project_row"])
            apply (rule exI[of _ lres], rule exI[of _ w2])
            using cr run_ok lp tail by simp
        qed
      qed
    qed
  qed
qed

lemma limit_note_text:
  \<open>limit_note =
     ''\<newline>\<newline>---\<newline>\<newline>**Note**: Reached maximum tool call limit (12). Plan may be incomplete.\<newline>Consider breaking this task into smaller phases.''\<close>
  by (simp add: limit_note_def MAX_TOOL_ITERATIONS_def show_nat.simps)

text \<open>
  C1. Whatever the outside world does, a call of \<open>generate_plan\<close> makes at most 12 calls
  of the provider. When it returns a result after 12 provider calls of which the last
  still asked for tools (the cap is used up without a final answer), the plan is the
  final content, which is empty, with the note about the limit of 12 tool calls
  appended to it, this plan is the stored \<open>plan_md\<close> artifact of the task, and the result
  has \<open>truncated = true\<close>.
\<close>

theorem generate_plan_iteration_cap:
  assumes run: "generate_plan e project task w = (res, w')"
  shows \<open>length (provider_log w') \<le> length (provider_log w) + 12
       \<and> (\<forall>r. res = Inr r
              \<and> length (provider_log w') = length (provider_log w) + 12
              \<and> asks_for_tools (snd (last (provider_log w')))
            \<longrightarrow> PlanResult.truncated r
                \<and> plan_md r =
                    ''\<newline>\<newline>---\<newline>\<newline>**Note**: Reached maximum tool call limit (12). Plan may be incomplete.\<newline>Consider breaking this task into smaller phases.''
                \<and> artifacts w' (task, ''plan_md'') =
                    Some ''\<newline>\<newline>---\<newline>\<newline>**Note**: Reached maximum tool call limit (12). Plan may be incomplete.\<newline>Consider breaking this task into smaller phases.'')\<close>
proof -
  have with_note: "length (provider_log w') \<le> length (provider_log w) + 12
       \<and> (\<forall>r. res = Inr r
              \<and> length (provider_log w') = length (provider_log w) + 12
              \<and> asks_for_tools (snd (last (provider_log w')))
            \<longrightarrow> PlanResult.truncated r \<and> plan_md r = limit_note
                \<and> artifacts w' (task, ''plan_md'') = Some limit_note)"
  proof -
    from generate_plan_outcome[OF run] show ?thesis
    proof (elim disjE exE conjE)
      fix err
      assume "res = Inl err" "provider_log w' = provider_log w"
      then show ?thesis by simp
    next
      fix run w1 client msgs lres w2
      let ?v0 = "\<lparr>messages = msgs, tool_calls_count = 0, truncated = False, final_plan = []\<rparr>"
      assume cr: "create_run_plan e task w = (Inr run, w1)"
        and lp: "tool_loop MAX_TOOL_ITERATIONS e client (run_row_id run) project
                   (get_repo_tool_schemas e) ?v0 w1 = (lres, w2)"
        and lg: "provider_log w' = provider_log w2"
        and tail: "case lres of
                   Inl err \<Rightarrow> res = Inl err
                 | Inr v \<Rightarrow>
                     (case res of
                        Inl err \<Rightarrow> True
                      | Inr r \<Rightarrow>
                          run_id r = run_row_id run
                        \<and> plan_md r =
                            (if tool_calls_count v \<ge> MAX_TOOL_ITERATIONS \<and> final_plan v = []
                             then final_plan v @ limit_note else final_plan v)
                        \<and> PlanResult.truncated r =
                            (if tool_calls_count v \<ge> MAX_TOOL_ITERATIONS \<and> final_plan v = []
                             then True else truncated v)
                        \<and> PlanResult.tool_calls_count r = tool_calls_count v
                        \<and> artifacts w' (task, ''plan_md'') = Some (plan_md r))"
      have l1: "provider_log w1 = provider_log w"
        using create_run_plan_outcome[OF cr] by simp
      from tool_loop_calls[OF lp] obtain k where k: "k \<le> MAX_TOOL_ITERATIONS"
        "length (provider_log w2) = length (provider_log w1) + k"
        by auto
      have bound: "length (provider_log w') \<le> length (provider_log w) + 12"
        using k lg l1 by (simp add: MAX_TOOL_ITERATIONS_def)
      have "PlanResult.truncated r \<and> plan_md r = limit_note
            \<and> artifacts w' (task, ''plan_md'') = Some limit_note"
        if r: "res = Inr r"
          and full: "length (provider_log w') = length (provider_log w) + 12"
          and asks: "asks_for_tools (snd (last (provider_log w')))" for r
      proof -
        from r tail obtain v where v: "lres = Inr v"
          by (cases lres) auto
        have "final_plan v = final_plan ?v0
              \<and> tool_calls_count ?v0 + MAX_TOOL_ITERATIONS \<le> tool_calls_count v"
          using lp v full asks lg l1
          by (intro tool_loop_exhausted[of MAX_TOOL_ITERATIONS e client "run_row_id run" project
                "get_repo_tool_schemas e" ?v0 w1 v w2])
             (simp_all add: MAX_TOOL_ITERATIONS_def)
        then have "final_plan v = [] \<and> MAX_TOOL_ITERATIONS \<le> tool_calls_count v"
          by simp
        with tail v r show ?thesis by simp
      qed
      with bound show ?thesis by blast
    qed
  qed
  then show ?thesis
    unfolding limit_note_text .
qed

text \<open>
  C7, as the code has it. \<open>generate_plan\<close> changes no row of the runs table. It adds at
  most one row, the run it creates, with \<open>ended_at\<close> unset, and the row is still so when
  the entry point returns, with a result or with an error: the workflow has no
  statement that closes a run. Every message row it appends belongs to that run.
\<close>

theorem generate_plan_leaves_run_open:
  assumes run: "generate_plan e project task w = (res, w')"
  shows "(runs w' = runs w \<and> messages_table w' = messages_table w
          \<and> (\<exists>err. res = Inl err))
       \<or> (\<exists>run. runs w' = runs w @ [run] \<and> ended_at run = None
              \<and> task_id run = task \<and> run_type run = ''plan''
              \<and> appended_for (run_row_id run) w w'
              \<and> (case res of Inl err \<Rightarrow> True | Inr r \<Rightarrow> run_id r = run_row_id run))"
proof -
  from generate_plan_outcome[OF run] show ?thesis
  proof (elim disjE exE conjE)
    fix err
    assume "res = Inl err" "runs w' = runs w" "messages_table w' = messages_table w"
    then show ?thesis by simp
  next
    fix run w1 client msgs lres w2
    let ?v0 = "\<lparr>messages = msgs, tool_calls_count = 0, truncated = False, final_plan = []\<rparr>"
    assume cr: "create_run_plan e task w = (Inr run, w1)"
      and lp: "tool_loop MAX_TOOL_ITERATIONS e client (run_row_id run) project
                 (get_repo_tool_schemas e) ?v0 w1 = (lres, w2)"
      and rs: "runs w' = runs w2" and ms: "messages_table w' = messages_table w2"
      and tail: "case lres of
                 Inl err \<Rightarrow> res = Inl err
               | Inr v \<Rightarrow>
                   (case res of
                      Inl err \<Rightarrow> True
                    | Inr r \<Rightarrow>
                        run_id r = run_row_id run
                      \<and> plan_md r =
                          (if tool_calls_count v \<ge> MAX_TOOL_ITERATIONS \<and> final_plan v = []
                           then final_plan v @ limit_note else final_plan v)
                      \<and> PlanResult.truncated r =
                          (if tool_calls_count v \<ge> MAX_TOOL_ITERATIONS \<and> final_plan v = []
                           then True else truncated v)
                      \<and> PlanResult.tool_calls_count r = tool_calls_count v
                      \<and> artifacts w' (task, ''plan_md'') = Some (plan_md r))"
    from create_run_plan_outcome[OF cr]
    have c: "messages_table w1 = messages_table w" "runs w1 = runs w @ [run]"
      "ended_at run = None" "task_id run = task" "run_type run = ''plan''"
      by simp_all
    from tool_loop_calls[OF lp]
    have l: "runs w2 = runs w1" "appended_for (run_row_id run) w1 w2"
      by simp_all
    have a: "appended_for (run_row_id run) w w'"
      using l(2) c(1) ms by (simp add: appended_for_def)
    have t: "case res of Inl err \<Rightarrow> True | Inr r \<Rightarrow> run_id r = run_row_id run"
      using tail by (cases lres; cases res) auto
    show ?thesis
      using c l rs a t by (intro disjI2 exI[of _ run]) simp
  qed
qed

subsection \<open>Tool calls inside the loop\<close>

text \<open>The arguments the executor receives: the project id is added to an object.\<close>

lemma execute_single_tool_parsed:
  assumes "from_str (lib e) (fn_arguments (tc_function tc)) = Inr a"
  shows "execute_single_tool e run p tc w = (Inr (tool_payload e (clock w) run p tc a), tick w)"
  using assms
  by (simp add: execute_single_tool_def tool_payload_def Let_def split: sum.splits)

lemma add_message_clock: "clock (snd (add_message e run r c w)) = Suc (clock w)"
  by (simp add: add_message_def tick_def split: option.splits)

lemma run_tool_calls_parsed:
  "list_all (\<lambda>tc. \<exists>a. from_str (lib e) (fn_arguments (tc_function tc)) = Inr a) calls \<Longrightarrow>
   \<exists>w'. run_tool_calls e run p calls msgs w
           = (Inr (msgs @ tool_answers e (clock w) run p calls), w')
      \<and> clock w' = clock w + 2 * length calls"
proof (induction calls arbitrary: msgs w)
  case Nil
  then show ?case by simp
next
  case (Cons tc calls)
  from Cons.prems obtain a where a: "from_str (lib e) (fn_arguments (tc_function tc)) = Inr a"
    and rest: "list_all (\<lambda>tc. \<exists>a. from_str (lib e) (fn_arguments (tc_function tc)) = Inr a) calls"
    by auto
  let ?payload = "tool_payload e (clock w) run p tc a"
  let ?m = "\<lparr>role = ''tool'', content = Some ?payload, tool_calls = None,
             tool_call_id = Some (tc_id tc)\<rparr>"
  let ?w2 = "snd (add_message e run ''tool'' ?payload (tick w))"
  have c2: "clock ?w2 = clock w + 2"
    by (simp add: add_message_clock tick_def)
  from Cons.IH[OF rest, of "msgs @ [?m]" ?w2] c2 obtain w' where
    r: "run_tool_calls e run p calls (msgs @ [?m]) ?w2
          = (Inr ((msgs @ [?m]) @ tool_answers e (clock w + 2) run p calls), w')"
    and c: "clock w' = clock w + 2 + 2 * length calls"
    by auto
  have "run_tool_calls e run p (tc # calls) msgs w
          = (Inr (msgs @ tool_answers e (clock w) run p (tc # calls)), w')"
    using execute_single_tool_parsed[OF a, of run p w] r a
    by (simp add: Let_def unwrap_or_default_def)
  with c show ?case by simp
qed



text \<open>
  A turn that asks for tools whose arguments all parse leads into the next turn, with
  the tool messages and then the assistant message appended to the context.
\<close>

lemma tool_loop_continues:
  assumes answer: "provider_answer e (clock w) c (messages (checked v)) tools = Inr response"
    and calls: "resp_tool_calls response = Some calls" "calls \<noteq> []"
    and logged: "resp_content response = None \<or> db_failure e (Suc (clock w)) = None"
    and parsed: "list_all (\<lambda>tc. \<exists>a. from_str (lib e) (fn_arguments (tc_function tc)) = Inr a)
                   calls"
  shows "\<exists>w1. tool_loop (Suc n) e c run p tools v w =
               tool_loop n e c run p tools
                 ((checked v)
                    \<lparr>tool_calls_count := tool_calls_count v + length calls,
                     messages :=
                       messages (checked v)
                       @ tool_answers e
                           (case resp_content response of
                              None \<Rightarrow> Suc (clock w) | Some _ \<Rightarrow> Suc (Suc (clock w)))
                           run p calls
                       @ [\<lparr>role = ''assistant'', content = resp_content response,
                           tool_calls = Some calls, tool_call_id = None\<rparr>]\<rparr>)
                 w1
           \<and> provider_log w1 = provider_log w @ [(messages (checked v), Inr response)]"
proof -
  let ?v1 = "checked v"
  let ?w1 = "tick (w\<lparr>provider_log := provider_log w @ [(messages ?v1, Inr response)]\<rparr>)"
  let ?t = "case resp_content response of
              None \<Rightarrow> Suc (clock w) | Some _ \<Rightarrow> Suc (Suc (clock w))"
  obtain w2 where log: "(case resp_content response of
                      None \<Rightarrow> (Inr (), ?w1)
                    | Some c \<Rightarrow> add_message e run ''assistant'' c ?w1) = (Inr (), w2)"
    and l2: "provider_log w2 = provider_log ?w1" and c2: "clock w2 = ?t"
    using logged
    by (cases "resp_content response")
       (auto simp: add_message_def tick_def split: option.splits)
  let ?v2 = "?v1\<lparr>tool_calls_count := tool_calls_count ?v1 + length calls\<rparr>"
  from run_tool_calls_parsed[OF parsed, of run p "messages ?v2" w2] c2
  obtain w3 where
    rt: "run_tool_calls e run p calls (messages ?v2) w2
           = (Inr (messages ?v2 @ tool_answers e ?t run p calls), w3)"
    by auto
  have l3: "provider_log w3 = provider_log w2"
    using run_tool_calls_frame[of e run p calls "messages ?v2" w2] rt by simp
  let ?v3 = "?v2\<lparr>messages := (messages ?v2 @ tool_answers e ?t run p calls) @
                      [\<lparr>role = ''assistant'', content = resp_content response,
                        tool_calls = resp_tool_calls response, tool_call_id = None\<rparr>]\<rparr>"
  have "tool_loop (Suc n) e c run p tools v w = tool_loop n e c run p tools ?v3 w3"
    using answer calls log rt
    by (simp only: tool_loop.simps Let_def checked_def[symmetric])
       (simp add: Let_def)
  moreover have "?v3 = ?v1\<lparr>tool_calls_count := tool_calls_count v + length calls,
                     messages :=
                       messages ?v1 @ tool_answers e ?t run p calls
                       @ [\<lparr>role = ''assistant'', content = resp_content response,
                           tool_calls = Some calls, tool_call_id = None\<rparr>]\<rparr>"
    using calls by (simp add: checked_def)
  moreover have "provider_log w3 = provider_log w @ [(messages ?v1, Inr response)]"
    using l2 l3 by (simp add: tick_def)
  ultimately show ?thesis by (intro exI[of _ w3]) simp
qed

subsection \<open>The scenarios, evaluated\<close>

lemma length_system_prompt: "length system_prompt = 1550"
  by (simp add: system_prompt_def)

lemma length_user_prompt: "length (user_prompt t r) = 425 + length t + length r"
  by (simp add: user_prompt_def)

lemma max_iterations_unfold:
  "MAX_TOOL_ITERATIONS = Suc (Suc (Suc (Suc (Suc (Suc (Suc (Suc (Suc (Suc (Suc (Suc 0)))))))))))"
  by (simp add: MAX_TOOL_ITERATIONS_def)

lemmas workflow_defs = create_run_plan_def create_run_def get_llm_config_def
  get_api_key_def build_initial_messages_def context_size_def MAX_CONTEXT_CHARS_def
  add_message_def upsert_artifact_def execute_single_tool_def
  tick_def unwrap_or_default_def or_insert_def Let_def

lemma env_plan_run:
  \<open>case generate_plan env_plan ''proj-1'' ''task-1'' w0 of
     (res, w') \<Rightarrow>
       res = Inr \<lparr>run_id = ''id-'' @ show_nat 0, plan_md = ''# Implementation Plan: Add login'',
                  PlanResult.tool_calls_count = 1, PlanResult.truncated = False\<rparr>
     \<and> map ended_at (runs w') = [None]
     \<and> map fst (provider_log w') =
         [[system_message, user_message],
          [system_message, user_message,
           \<lparr>role = ''tool'', content = Some ''{"status":"## main"}'', tool_calls = None,
            tool_call_id = Some ''call_1''\<rparr>,
           assistant_message]]
     \<and> map message_role (messages_table w') = [''tool'', ''assistant'']\<close>
  unfolding generate_plan_def max_iterations_unfold
  by (simp add: workflow_defs env_plan_def env0_def w0_def lib0_def git_status_call_def
        system_message_def user_message_def assistant_message_def
        length_system_prompt length_user_prompt)



lemma env_big_result_run:
  \<open>case generate_plan env_big_result ''proj-1'' ''task-1'' w0 of
     (res, w') \<Rightarrow>
       res = Inr \<lparr>run_id = ''id-'' @ show_nat 0, plan_md = ''# Implementation Plan: Add login'',
                  PlanResult.tool_calls_count = 1, PlanResult.truncated = True\<rparr>
     \<and> map fst (provider_log w') =
         [[system_message, user_message],
          [system_message, system_message, user_message, big_tool_message,
           assistant_message]]\<close>
  unfolding generate_plan_def max_iterations_unfold
  by (simp add: workflow_defs env_big_result_def env_plan_def env0_def w0_def lib0_def
        git_status_call_def truncate_messages_def
        system_message_def user_message_def assistant_message_def big_tool_message_def
        length_system_prompt length_user_prompt)

subsection \<open>A provider that never stops asking for tools\<close>

lemma env0_facts:
  "get_task env0 ''task-1''
     = Inr \<lparr>task_row_id = ''task-1'', project_id = ''proj-1'', title = ''Add login''\<rparr>"
  "get_project env0 ''proj-1''
     = Inr \<lparr>project_row_id = ''proj-1'', name = ''demo'', repo_path = ''/repo''\<rparr>"
  "get_all_settings env0 = Inr (migrate_002 Map.empty)"
  "SPECTRAIL_API_KEY env0 = Some ''sk-test''"
  "db_failure env0 t = None"
  "provider_answer env0 t c msgs tools
     = Inr \<lparr>resp_content = None, resp_tool_calls = Some [git_status_call]\<rparr>"
  "from_str (lib env0) ''{}'' = Inr (JObject [])"
  by (simp_all add: env0_def lib0_def)

lemma env0_loop:
  "\<exists>v' w'. tool_loop n env0 c run p tools v w = (Inr v', w')
     \<and> length (provider_log w') = length (provider_log w) + n
     \<and> (n = 0 \<or> asks_for_tools (snd (last (provider_log w'))))"
proof (induction n arbitrary: v w)
  case 0
  show ?case by simp
next
  case (Suc n)
  let ?response = "\<lparr>resp_content = None, resp_tool_calls = Some [git_status_call]\<rparr>"
  have parsed: "list_all (\<lambda>tc. \<exists>a. from_str (lib env0) (fn_arguments (tc_function tc)) = Inr a)
                  [git_status_call]"
    by (simp add: env0_facts git_status_call_def)
  from tool_loop_continues[of env0 w c v tools ?response "[git_status_call]" n run p, OF _ _ _ _ parsed]
  obtain v1 :: vars and w1 where
    step: "tool_loop (Suc n) env0 c run p tools v w = tool_loop n env0 c run p tools v1 w1"
    and log: "provider_log w1 = provider_log w @ [(messages (checked v), Inr ?response)]"
    by (auto simp: env0_facts)
  from Suc.IH[of v1 w1] obtain v' w' where
    r: "tool_loop n env0 c run p tools v1 w1 = (Inr v', w')"
    and l: "length (provider_log w') = length (provider_log w1) + n"
    and a: "n = 0 \<or> asks_for_tools (snd (last (provider_log w')))"
    by blast
  have "asks_for_tools (snd (last (provider_log w')))"
  proof (cases n)
    case 0
    with r log show ?thesis by (simp add: asks_for_tools_def)
  next
    case (Suc m)
    with a show ?thesis by simp
  qed
  with step r l log show ?case by simp
qed

lemma env0_run:
  "\<exists>r w'. generate_plan env0 ''proj-1'' ''task-1'' w0 = (Inr r, w')
     \<and> length (provider_log w') = 12
     \<and> asks_for_tools (snd (last (provider_log w')))"
proof -
  obtain run w1 where cr: "create_run_plan env0 ''task-1'' w0 = (Inr run, w1)"
    by (simp add: create_run_plan_def create_run_def get_llm_config_def env0_facts Let_def)
  have l1: "provider_log w1 = []"
    using create_run_plan_outcome[OF cr] by (simp add: w0_def)
  let ?client = "\<lparr>config = build_llm_config (lib env0) (migrate_002 Map.empty),
                  api_key = ''sk-test''\<rparr>"
  let ?v0 = "\<lparr>messages = build_initial_messages
                           \<lparr>task_row_id = ''task-1'', project_id = ''proj-1'',
                             title = ''Add login''\<rparr>
                           \<lparr>project_row_id = ''proj-1'', name = ''demo'', repo_path = ''/repo''\<rparr>,
              tool_calls_count = 0, truncated = False, final_plan = []\<rparr>"
  from env0_loop[of MAX_TOOL_ITERATIONS ?client "run_row_id run" "''proj-1''"
                    "get_repo_tool_schemas env0" ?v0 w1]
  obtain v' w2 where
    lp: "tool_loop MAX_TOOL_ITERATIONS env0 ?client (run_row_id run) ''proj-1''
           (get_repo_tool_schemas env0) ?v0 w1 = (Inr v', w2)"
    and l2: "length (provider_log w2) = 12"
    and a2: "asks_for_tools (snd (last (provider_log w2)))"
    using l1 by (auto simp: MAX_TOOL_ITERATIONS_def)
  obtain r w3 where g: "generate_plan env0 ''proj-1'' ''task-1'' w0 = (Inr r, w3)"
    and l3: "provider_log w3 = provider_log w2"
    using cr lp
    by (simp add: generate_plan_def env0_facts get_api_key_def upsert_artifact_def
                  tick_def Let_def)
  with l2 a2 show ?thesis by simp
qed

text \<open>
  With a provider that asks for \<open>git_status\<close> at every turn, the run makes 12 provider
  calls and returns the limit note as a truncated plan.
\<close>

theorem generate_plan_iteration_cap_witness:
  \<open>(\<exists>r. fst (generate_plan env0 ''proj-1'' ''task-1'' w0) = Inr r
        \<and> PlanResult.truncated r
        \<and> plan_md r =
            ''\<newline>\<newline>---\<newline>\<newline>**Note**: Reached maximum tool call limit (12). Plan may be incomplete.\<newline>Consider breaking this task into smaller phases.'')
   \<and> length (provider_log (snd (generate_plan env0 ''proj-1'' ''task-1'' w0))) = 12
   \<and> asks_for_tools
       (snd (last (provider_log (snd (generate_plan env0 ''proj-1'' ''task-1'' w0)))))
   \<and> artifacts (snd (generate_plan env0 ''proj-1'' ''task-1'' w0)) (''task-1'', ''plan_md'')
       = Some ''\<newline>\<newline>---\<newline>\<newline>**Note**: Reached maximum tool call limit (12). Plan may be incomplete.\<newline>Consider breaking this task into smaller phases.''\<close>
proof -
  from env0_run obtain r w' where
    g: "generate_plan env0 ''proj-1'' ''task-1'' w0 = (Inr r, w')"
    and l: "length (provider_log w') = 12"
    and a: "asks_for_tools (snd (last (provider_log w')))"
    by blast
  from generate_plan_iteration_cap[OF g] l a
  have "PlanResult.truncated r \<and> plan_md r = limit_note
        \<and> artifacts w' (''task-1'', ''plan_md'') = Some limit_note"
    by (simp add: w0_def limit_note_text)
  with g l a show ?thesis by (simp add: limit_note_text)
qed

subsection \<open>The context cap\<close>

text \<open>
  C3 fails on the code at a context of three to six messages. After a first turn with
  one large tool result the context check finds more than 100000 characters, and
  \<open>truncate_messages\<close> returns the system message followed by all four messages, the
  system message among them: five messages, nothing dropped, the system message twice.
  This is the second request of a run whose tool result prints as 150000 characters.
\<close>

theorem truncate_messages_repeats_system_message:
  "MAX_CONTEXT_CHARS < context_size big_context
   \<and> truncate_messages big_context MAX_CONTEXT_CHARS
       = [system_message, system_message, user_message, big_tool_message, assistant_message]
   \<and> map fst (provider_log (snd (generate_plan env_big_result ''proj-1'' ''task-1'' w0)))
       = [[system_message, user_message],
          [system_message, system_message, user_message, big_tool_message,
           assistant_message]]"
proof -
  have a: "MAX_CONTEXT_CHARS < context_size big_context"
    by (simp add: big_context_def context_size_def MAX_CONTEXT_CHARS_def
        system_message_def user_message_def big_tool_message_def assistant_message_def
        length_system_prompt length_user_prompt)
  have b: "truncate_messages big_context MAX_CONTEXT_CHARS
       = [system_message, system_message, user_message, big_tool_message, assistant_message]"
    by (simp add: big_context_def truncate_messages_def)
  have c: "map fst (provider_log (snd (generate_plan env_big_result ''proj-1'' ''task-1'' w0)))
       = [[system_message, user_message],
          [system_message, system_message, user_message, big_tool_message,
           assistant_message]]"
    using env_big_result_run
    by (cases "generate_plan env_big_result ''proj-1'' ''task-1'' w0") simp
  from a b c show ?thesis by simp
qed

subsection \<open>The order of tool messages\<close>

text \<open>
  C4 fails on the code. When the provider asks for one tool and then answers, the second
  request holds the tool message before the assistant message that asked for it, and
  nothing after that assistant message: its tool call is not answered in the sense of
  the claim. The stored messages of the run are the tool row and the final assistant
  row; the assistant turn that asked for the tool has no content and is not stored.
\<close>

theorem tool_message_precedes_its_assistant_message:
  \<open>map (\<lambda>request. map role (fst request))
       (provider_log (snd (generate_plan env_plan ''proj-1'' ''task-1'' w0)))
     = [[''system'', ''user''], [''system'', ''user'', ''tool'', ''assistant'']]
   \<and> \<not> tool_calls_answered
         (fst (last (provider_log (snd (generate_plan env_plan ''proj-1'' ''task-1'' w0)))))
   \<and> map message_role (messages_table (snd (generate_plan env_plan ''proj-1'' ''task-1'' w0)))
     = [''tool'', ''assistant'']\<close>
proof (cases "generate_plan env_plan ''proj-1'' ''task-1'' w0")
  case (Pair res w')
  with env_plan_run have
    "map fst (provider_log w') =
         [[system_message, user_message],
          [system_message, user_message,
           \<lparr>role = ''tool'', content = Some ''{\"status\":\"## main\"}'', tool_calls = None,
            tool_call_id = Some ''call_1''\<rparr>,
           assistant_message]]"
    and m: "map message_role (messages_table w') = [''tool'', ''assistant'']"
    by simp_all
  then obtain q1 q2 where "provider_log w' = [q1, q2]" "fst q1 = [system_message, user_message]"
    "fst q2 = [system_message, user_message,
           \<lparr>role = ''tool'', content = Some ''{\"status\":\"## main\"}'', tool_calls = None,
            tool_call_id = Some ''call_1''\<rparr>,
           assistant_message]"
    by auto
  with Pair m show ?thesis
    by (simp add: system_message_def user_message_def assistant_message_def
                  git_status_call_def)
qed

subsection \<open>Tool failures\<close>




subsection \<open>The run row\<close>

text \<open>
  A run that returns a plan: the run row is there, for the task, with \<open>ended_at\<close> unset.
\<close>

theorem generate_plan_leaves_run_open_witness:
  "(\<exists>r. fst (generate_plan env_plan ''proj-1'' ''task-1'' w0) = Inr r)
   \<and> (\<exists>run. runs (snd (generate_plan env_plan ''proj-1'' ''task-1'' w0)) = [run]
          \<and> ended_at run = None \<and> task_id run = ''task-1'' \<and> run_type run = ''plan''
          \<and> appended_for (run_row_id run) w0
               (snd (generate_plan env_plan ''proj-1'' ''task-1'' w0)))"
proof (cases "generate_plan env_plan ''proj-1'' ''task-1'' w0")
  case (Pair res w')
  with env_plan_run obtain r where r: "res = Inr r"
    by auto
  from generate_plan_leaves_run_open[OF Pair] r
  have "\<exists>run. runs w' = [run] \<and> ended_at run = None \<and> task_id run = ''task-1''
          \<and> run_type run = ''plan'' \<and> appended_for (run_row_id run) w0 w'"
    by (auto simp: w0_def)
  with Pair r show ?thesis by simp
qed

text \<open>
  C7 as stated fails: \<open>generate_plan\<close> returns a plan, and the run it created has no
  \<open>ended_at\<close>.
\<close>

theorem run_not_closed_counterexample:
  "(\<exists>r. fst (generate_plan env_plan ''proj-1'' ''task-1'' w0) = Inr r)
   \<and> map ended_at (runs (snd (generate_plan env_plan ''proj-1'' ''task-1'' w0))) = [None]"
  using env_plan_run
  by (cases "generate_plan env_plan ''proj-1'' ''task-1'' w0") simp

end
